theory Spec2Isabelle
  imports Complex_Main "HOL-Library.AList" "HOL-Library.Product_Lexorder" "HOL-Library.Log_Nat"
begin

section \<open>Values, errors and the decimal numerals of the feed\<close>

text \<open>
  The exceptions that the streamer's code paths can raise. \<open>Exception\<close> is the generic
  exception of \<^verbatim>\<open>on_order_book\<close> (\<^verbatim>\<open>raise Exception(f'{e.read()}')\<close>); its argument is
  the text of the message. \<open>JSONDecodeError\<close> and \<open>UnicodeDecodeError\<close> are what
  \<^verbatim>\<open>json.loads\<close> raises, on text that is not JSON and on bytes that are not text; each
  records the input it was given (the attributes \<^verbatim>\<open>doc\<close> and \<^verbatim>\<open>object\<close>). The others are
  raised by the Python runtime and its libraries and carry nothing of the input but, for
  \<open>KeyError\<close>, the key.
\<close>

datatype error =
    Exception string
  | JSONDecodeError string
  | UnicodeDecodeError string
  | KeyError string
  | TypeError
  | IndexError
  | InvalidOperation
  | ConnectionClosed
  | CancelledError

text \<open>
  Parsed JSON, as far as the depth schema needs it: strings, integers, arrays of arrays of
  strings (the price levels) and objects. An object is the dictionary \<^verbatim>\<open>json.loads\<close> built,
  as an association list in insertion order.
\<close>

datatype jval =
    JStr string
  | JInt int
  | JLevels "string list list"
  | JObj "(string \<times> jval) list"

text \<open>\<^verbatim>\<open>d[k]\<close> on a parsed value: only an object can be indexed by a string key.\<close>

fun getitem :: "jval \<Rightarrow> string \<Rightarrow> error + jval" where
  "getitem (JObj kvs) k = (case map_of kvs k of None \<Rightarrow> Inl (KeyError k) | Some v \<Rightarrow> Inr v)"
| "getitem (JStr s) k = Inl TypeError"
| "getitem (JInt n) k = Inl TypeError"
| "getitem (JLevels rows) k = Inl TypeError"

text \<open>
  \<^verbatim>\<open>for row in v\<close> followed by \<^verbatim>\<open>row[0]\<close>, \<^verbatim>\<open>row[1]\<close>: what iterating a parsed value
  yields, each item seen as the sequence of strings that indexing it gives. An array yields
  its rows; a string yields its characters, each a string of length one; an object yields
  its keys, strings again; an integer is not iterable.
\<close>

fun rows_of :: "jval \<Rightarrow> error + string list list" where
  "rows_of (JLevels rows) = Inr rows"
| "rows_of (JStr s) = Inr (map (\<lambda>c. [[c]]) s)"
| "rows_of (JObj kvs) = Inr (map (\<lambda>kv. map (\<lambda>c. [c]) (fst kv)) kvs)"
| "rows_of (JInt n) = Inl TypeError"

text \<open>\<^verbatim>\<open>row[i]\<close> on a list: IndexError out of range.\<close>

definition index :: "'a list \<Rightarrow> nat \<Rightarrow> error + 'a" where
  "index xs i = (if i < length xs then Inr (xs ! i) else Inl IndexError)"

subsection \<open>Decimal\<close>

text \<open>
  \<^verbatim>\<open>Decimal(s)\<close> for a string: the exact value of a numeral
  \<^verbatim>\<open>[sign] (digits [. [digits]] | . digits) [(e|E) [sign] digits]\<close>, as a rational, and
  InvalidOperation for anything else. The construction is exact whatever the context
  precision, and two decimals are the same dictionary key when they are numerically equal,
  which is equality of rationals. This covers the finite numerals; the special values
  (Infinity, NaN), surrounding blanks and underscores between digits, none of which the
  exchange's schema contains, are not covered: the model rejects them.
\<close>

definition is_digit :: "char \<Rightarrow> bool" where
  "is_digit c \<longleftrightarrow> c \<in> set ''0123456789''"

definition digit_val :: "char \<Rightarrow> nat" where
  "digit_val c = (of_char c :: nat) - 48"

definition digits_val :: "string \<Rightarrow> nat" where
  "digits_val ds = foldl (\<lambda>n c. 10 * n + digit_val c) 0 ds"

definition all_digits :: "string \<Rightarrow> bool" where
  "all_digits ds \<longleftrightarrow> list_all is_digit ds"

text \<open>An optional sign: whether it is a minus, and the rest.\<close>

fun strip_sign :: "string \<Rightarrow> bool \<times> string" where
  "strip_sign [] = (False, [])"
| "strip_sign (c # cs) =
     (if c = CHR ''-'' then (True, cs) else if c = CHR ''+'' then (False, cs) else (False, c # cs))"

definition pow10 :: "int \<Rightarrow> rat" where
  "pow10 e = (if 0 \<le> e then 10 ^ nat e else 1 / 10 ^ nat (- e))"

definition is_exp_mark :: "char \<Rightarrow> bool" where
  "is_exp_mark c \<longleftrightarrow> c = CHR ''e'' \<or> c = CHR ''E''"

text \<open>The exponent part after the indicator: \<^verbatim>\<open>[sign] digits\<close>.\<close>

definition exponent_of :: "string \<Rightarrow> int option" where
  "exponent_of s =
     (let (neg, ds) = strip_sign s in
      if ds = [] \<or> \<not> all_digits ds then None
      else Some (if neg then - int (digits_val ds) else int (digits_val ds)))"

definition Decimal :: "string \<Rightarrow> error + rat" where
  "Decimal s =
     (let (neg, body) = strip_sign s;
          mant = takeWhile (\<lambda>c. \<not> is_exp_mark c) body;
          rest = dropWhile (\<lambda>c. \<not> is_exp_mark c) body;
          ip = takeWhile (\<lambda>c. c \<noteq> CHR ''.'') mant;
          fp = drop 1 (dropWhile (\<lambda>c. c \<noteq> CHR ''.'') mant);
          ex = (if rest = [] then Some 0 else exponent_of (tl rest))
      in if \<not> all_digits ip \<or> \<not> all_digits fp \<or> ip @ fp = [] then Inl InvalidOperation
         else (case ex of
                 None \<Rightarrow> Inl InvalidOperation
               | Some e \<Rightarrow>
                   let m = of_nat (digits_val (ip @ fp)) * pow10 (e - int (length fp))
                   in Inr (if neg then - m else m)))"

section \<open>The order book of one symbol\<close>

text \<open>
  A side of the book is a Python dict from price to quantity: an association list in
  insertion order. \<^verbatim>\<open>d[p] = q\<close> is \<open>AList.update\<close> (an existing key keeps its place, a new
  one goes last) and \<^verbatim>\<open>del d[p]\<close> is \<open>AList.delete\<close>.
\<close>

type_synonym levels = "(rat \<times> rat) list"

record book =
  bids :: levels
  asks :: levels

definition empty_book :: book where
  "empty_book = \<lparr>bids = [], asks = []\<rparr>"

text \<open>
  The body of the two loops of \<^verbatim>\<open>update_order_book\<close> (lines 106-109 and 113-116):
  \<^verbatim>\<open>if q > 0: d[p] = q  elif p in d: del d[p]\<close>.
\<close>

definition update_level :: "levels \<Rightarrow> rat \<Rightarrow> rat \<Rightarrow> levels" where
  "update_level d p q =
     (if q > 0 then AList.update p q d
      else if p \<in> fst ` set d then AList.delete p d
      else d)"

text \<open>
  One loop of \<^verbatim>\<open>update_order_book\<close> over the update entries of a side:
  \<^verbatim>\<open>p, q = Decimal(row[0]), Decimal(row[1])\<close>, then the body. The dict is mutated in place, so
  an exception in the middle leaves the entries before it applied: the result is the
  exception, if any, and the dict as it then is.
\<close>

fun apply_levels :: "levels \<Rightarrow> string list list \<Rightarrow> error option \<times> levels" where
  "apply_levels d [] = (None, d)"
| "apply_levels d (row # rows) =
     (case index row 0 of Inl e \<Rightarrow> (Some e, d) | Inr s0 \<Rightarrow>
      case Decimal s0 of Inl e \<Rightarrow> (Some e, d) | Inr p \<Rightarrow>
      case index row 1 of Inl e \<Rightarrow> (Some e, d) | Inr s1 \<Rightarrow>
      case Decimal s1 of Inl e \<Rightarrow> (Some e, d) | Inr q \<Rightarrow>
        apply_levels (update_level d p q) rows)"

text \<open>
  Lines 102-116 of \<^verbatim>\<open>update_order_book\<close>: read \<^verbatim>\<open>updates['a']\<close> and \<^verbatim>\<open>updates['b']\<close>,
  then run the loop over the asks and the loop over the bids.
\<close>

definition apply_updates :: "book \<Rightarrow> jval \<Rightarrow> error option \<times> book" where
  "apply_updates bk updates =
     (case getitem updates ''a'' of Inl e \<Rightarrow> (Some e, bk) | Inr a \<Rightarrow>
      case getitem updates ''b'' of Inl e \<Rightarrow> (Some e, bk) | Inr b \<Rightarrow>
      case rows_of a of Inl e \<Rightarrow> (Some e, bk) | Inr arows \<Rightarrow>
      case apply_levels (asks bk) arows of
        (Some e, d) \<Rightarrow> (Some e, bk\<lparr>asks := d\<rparr>)
      | (None, d) \<Rightarrow>
          (case rows_of b of Inl e \<Rightarrow> (Some e, bk\<lparr>asks := d\<rparr>) | Inr brows \<Rightarrow>
           case apply_levels (bids bk) brows of
             (r, d') \<Rightarrow> (r, bk\<lparr>asks := d, bids := d'\<rparr>)))"

section \<open>The snapshot over REST\<close>

text \<open>
  The REST endpoint and the JSON decoder are outside the repository; the model takes them as
  parameters. \<open>urlopen\<close> answers a request (the endpoint and the query attributes) with a
  body, or with the HTTPError that \<^verbatim>\<open>urllib\<close> raises for a status outside 2xx, which
  carries the body too. A body is the bytes of the response (a \<open>string\<close> is a list of
  bytes). A request that gets no response at all is not part of the model. \<open>loads\<close> is
  \<^verbatim>\<open>json.loads\<close>: the value decoded, or the exception the decoder raises.
\<close>

datatype http_outcome = HTTPError string | Response string

type_synonym request = "string \<times> (string \<times> string) list"

type_synonym urlopen = "request \<Rightarrow> http_outcome"

type_synonym loads = "string \<Rightarrow> error + jval"

definition URL_ORDER_BOOK :: string where
  "URL_ORDER_BOOK = ''https://api.binance.com/api/v1/depth''"

definition URL_ORDER_BOOK_PERP :: string where
  "URL_ORDER_BOOK_PERP = ''https://dapi.binance.com/dapi/v1/depth''"

text \<open>The namedtuple \<^verbatim>\<open>OrderBook\<close>, fields \<^verbatim>\<open>bids\<close> and \<^verbatim>\<open>asks\<close>.\<close>

datatype order_book = OrderBook (ob_bids: levels) (ob_asks: levels)

text \<open>
  The request \<^verbatim>\<open>on_order_book\<close> builds for a symbol: the perpetual endpoint when the symbol
  has an underscore, the spot endpoint otherwise; \<^verbatim>\<open>limit\<close> keeps its default, 1000.
\<close>

definition depth_request :: "string \<Rightarrow> request" where
  "depth_request symbol =
     (if CHR ''_'' \<in> set symbol then URL_ORDER_BOOK_PERP else URL_ORDER_BOOK,
      [(''symbol'', symbol), (''limit'', ''1000'')])"

text \<open>
  The loops of lines 48-51: every row becomes \<^verbatim>\<open>(Decimal(row[0]), Decimal(row[1]))\<close>; the
  first exception ends the function.
\<close>

fun decimal_levels :: "string list list \<Rightarrow> error + levels" where
  "decimal_levels [] = Inr []"
| "decimal_levels (row # rows) =
     (case index row 0 of Inl e \<Rightarrow> Inl e | Inr s0 \<Rightarrow>
      case Decimal s0 of Inl e \<Rightarrow> Inl e | Inr p \<Rightarrow>
      case index row 1 of Inl e \<Rightarrow> Inl e | Inr s1 \<Rightarrow>
      case Decimal s1 of Inl e \<Rightarrow> Inl e | Inr q \<Rightarrow>
      case decimal_levels rows of Inl e \<Rightarrow> Inl e | Inr ls \<Rightarrow> Inr ((p, q) # ls))"

definition field_levels :: "jval \<Rightarrow> string \<Rightarrow> error + levels" where
  "field_levels res k =
     (case getitem res k of Inl e \<Rightarrow> Inl e | Inr v \<Rightarrow>
      case rows_of v of Inl e \<Rightarrow> Inl e | Inr rows \<Rightarrow> decimal_levels rows)"

text \<open>
  How Python prints bytes, which is what the f-string \<^verbatim>\<open>f'{e.read()}'\<close> does: \<^verbatim>\<open>b\<close>, a
  quote, the bytes and the quote again. The quote is the single one, unless the bytes have a
  single quote and no double quote; a backslash goes before the quote character and before
  a backslash; tab, newline and carriage return are written as a backslash and the letter
  t, n or r; any other byte below 32 or from 127 on is written as a backslash, the letter x
  and two hexadecimal digits.
\<close>

definition quote_of :: "string \<Rightarrow> char" where
  "quote_of body =
     (if CHR 0x27 \<in> set body \<and> CHR 0x22 \<notin> set body then CHR 0x22 else CHR 0x27)"

definition hex_digit :: "nat \<Rightarrow> char" where
  "hex_digit n = ''0123456789abcdef'' ! (n mod 16)"

definition escape_byte :: "char \<Rightarrow> char \<Rightarrow> string" where
  "escape_byte quote c =
     (let n = (of_char c :: nat) in
      if c = quote \<or> c = CHR 0x5C then [CHR 0x5C, c]
      else if c = CHR 0x09 then [CHR 0x5C, CHR ''t'']
      else if c = CHR 0x0A then [CHR 0x5C, CHR ''n'']
      else if c = CHR 0x0D then [CHR 0x5C, CHR ''r'']
      else if n < 32 \<or> 127 \<le> n then [CHR 0x5C, CHR ''x'', hex_digit (n div 16), hex_digit n]
      else [c])"

definition bytes_repr :: "string \<Rightarrow> string" where
  "bytes_repr body =
     CHR ''b'' # quote_of body # concat (map (escape_byte (quote_of body)) body)
       @ [quote_of body]"

text \<open>
  \<^verbatim>\<open>on_order_book\<close>. Only HTTPError is caught, and raised again as a generic exception whose
  message is the printed form of the body the error carries. On a response that came
  through, what the decoder raises is not caught, nor is what the lookups of the fields, the
  indexing of the entries and \<^verbatim>\<open>Decimal\<close> raise. The values \<open>jval\<close> has are those of the
  depth schema and of the exchange's error object; a body whose fields hold other JSON
  values (numbers or null where a numeral string is expected, nested arrays, objects as
  entries) is outside this model.
\<close>

definition on_order_book :: "loads \<Rightarrow> urlopen \<Rightarrow> string \<Rightarrow> error + order_book" where
  "on_order_book loads urlopen symbol =
     (case urlopen (depth_request symbol) of
        HTTPError body \<Rightarrow> Inl (Exception (bytes_repr body))
      | Response body \<Rightarrow>
          (case loads body of
             Inl e \<Rightarrow> Inl e
           | Inr res \<Rightarrow>
               (case field_levels res ''bids'' of Inl e \<Rightarrow> Inl e | Inr bs \<Rightarrow>
                case field_levels res ''asks'' of Inl e \<Rightarrow> Inl e | Inr as \<Rightarrow>
                  Inr (OrderBook bs as))))"

section \<open>OrderBookStream\<close>

text \<open>
  The object's four fields, and a record of what it did to the world: the REST requests
  issued, the websocket URLs connected to, the \<^verbatim>\<open>run\<close> tasks created and the receive tasks
  on which \<^verbatim>\<open>cancel()\<close> was called. A receive task is named by a number, \<open>next_task\<close> being
  the name of the next one created.
\<close>

record stream =
  order_books :: "(string \<times> book) list"
  order_books_perp :: "(string \<times> book) list"
  sockets :: "string set"
  tasks :: "(string \<times> nat) list"
  requests :: "request list"
  connects :: "string list"
  scheduled :: "(string \<times> string) list"
  cancelled :: "nat set"
  next_task :: nat

definition init :: stream where
  "init = \<lparr>order_books = [], order_books_perp = [], sockets = {}, tasks = [],
           requests = [], connects = [], scheduled = [], cancelled = {}, next_task = 0\<rparr>"

definition lookup :: "(string \<times> 'a) list \<Rightarrow> string \<Rightarrow> error + 'a" where
  "lookup d k = (case map_of d k of None \<Rightarrow> Inl (KeyError k) | Some v \<Rightarrow> Inr v)"

definition get_order_book :: "stream \<Rightarrow> string \<Rightarrow> error + book" where
  "get_order_book st symbol = lookup (order_books st) symbol"

definition get_order_book_perp :: "stream \<Rightarrow> string \<Rightarrow> error + book" where
  "get_order_book_perp st symbol = lookup (order_books_perp st) symbol"

text \<open>\<^verbatim>\<open>for (p, q) in levels: d[p] = q\<close>.\<close>

definition set_levels :: "levels \<Rightarrow> levels \<Rightarrow> levels" where
  "set_levels d ls = foldl (\<lambda>d' pq. AList.update (fst pq) (snd pq) d') d ls"

text \<open>
  Lines 94-100, "initialize the order book": when both sides are empty, fetch the snapshot
  and store its asks, then its bids. The result says whether a request was made.
\<close>

definition initialize_book ::
  "loads \<Rightarrow> urlopen \<Rightarrow> string \<Rightarrow> book \<Rightarrow> error option \<times> bool \<times> book" where
  "initialize_book loads urlopen symbol bk =
     (if length (asks bk) = 0 \<and> length (bids bk) = 0 then
        (case on_order_book loads urlopen symbol of
           Inl e \<Rightarrow> (Some e, True, bk)
         | Inr ob \<Rightarrow>
             (None, True, bk\<lparr>asks := set_levels (asks bk) (ob_asks ob),
                              bids := set_levels (bids bk) (ob_bids ob)\<rparr>))
      else (None, False, bk))"

text \<open>
  The book object is shared with the dict that holds it, so what the function did to it
  before an exception stays. \<open>store_book\<close> writes the book back under its symbol.
\<close>

definition store_book :: "string \<Rightarrow> book \<Rightarrow> stream \<Rightarrow> stream" where
  "store_book symbol bk st =
     (if CHR ''_'' \<in> set symbol
      then st\<lparr>order_books_perp := AList.update symbol bk (order_books_perp st)\<rparr>
      else st\<lparr>order_books := AList.update symbol bk (order_books st)\<rparr>)"

definition log_request :: "bool \<Rightarrow> string \<Rightarrow> stream \<Rightarrow> stream" where
  "log_request fetched symbol st =
     (if fetched then st\<lparr>requests := requests st @ [depth_request symbol]\<rparr> else st)"

definition update_order_book ::
  "loads \<Rightarrow> urlopen \<Rightarrow> string \<Rightarrow> jval \<Rightarrow> stream \<Rightarrow> error option \<times> stream" where
  "update_order_book loads urlopen symbol updates st =
     (case (if CHR ''_'' \<in> set symbol then lookup (order_books_perp st) symbol
            else lookup (order_books st) symbol) of
        Inl e \<Rightarrow> (Some e, st)
      | Inr bk \<Rightarrow>
          (case initialize_book loads urlopen symbol bk of
             (Some e, fetched, bk1) \<Rightarrow> (Some e, log_request fetched symbol (store_book symbol bk1 st))
           | (None, fetched, bk1) \<Rightarrow>
               (case apply_updates bk1 updates of
                  (r, bk2) \<Rightarrow> (r, log_request fetched symbol (store_book symbol bk2 st)))))"

text \<open>\<^verbatim>\<open>str.lower\<close> on the ASCII letters that symbols are made of.\<close>

definition lower_char :: "char \<Rightarrow> char" where
  "lower_char c =
     (let n = (of_char c :: nat) in if 65 \<le> n \<and> n \<le> 90 then char_of (n + 32) else c)"

definition lower :: "string \<Rightarrow> string" where
  "lower s = map lower_char s"

text \<open>
  \<^verbatim>\<open>open_stream_order_book\<close> and its perpetual twin: store a fresh empty book under the
  symbol, then create the task that will run \<^verbatim>\<open>run(url, id, callback)\<close>. The task starts
  later, on the event loop; \<open>scheduled\<close> records it.
\<close>

definition open_stream_order_book :: "string \<Rightarrow> stream \<Rightarrow> stream" where
  "open_stream_order_book symbol st =
     st\<lparr>order_books := AList.update symbol empty_book (order_books st),
        scheduled := scheduled st @
          [(''wss://stream.binance.com:9443/ws/'' @ lower symbol @ ''@depth'',
            ''depth_'' @ lower symbol)]\<rparr>"

definition open_stream_order_book_perp :: "string \<Rightarrow> stream \<Rightarrow> stream" where
  "open_stream_order_book_perp symbol st =
     st\<lparr>order_books_perp := AList.update symbol empty_book (order_books_perp st),
        scheduled := scheduled st @
          [(''wss://dstream.binance.com/stream?streams='' @ lower symbol @ ''@depth'',
            ''depth_perp_'' @ lower symbol)]\<rparr>"

text \<open>
  \<^verbatim>\<open>close\<close>: call \<^verbatim>\<open>cancel()\<close> on every task in \<^verbatim>\<open>_tasks\<close>, then clear \<^verbatim>\<open>_sockets\<close>. The
  dict of tasks itself is not emptied.
\<close>

definition close :: "stream \<Rightarrow> stream" where
  "close st = st\<lparr>cancelled := cancelled st \<union> snd ` set (tasks st), sockets := {}\<rparr>"

section \<open>The session loop\<close>

text \<open>
  \<^verbatim>\<open>run(url, id, callback)\<close> is a coroutine; the model has one function for each stretch of
  it between two suspension points. \<open>run_begin\<close> is the entry, up to the call of
  \<^verbatim>\<open>websockets.connect\<close>: it says whether the coroutine went on to connect.
\<close>

definition run_begin :: "string \<Rightarrow> string \<Rightarrow> stream \<Rightarrow> bool \<times> stream" where
  "run_begin url ident st =
     (if ident \<in> sockets st then (False, st)
      else (True, st\<lparr>connects := connects st @ [url]\<rparr>))"

text \<open>
  The head of the \<^verbatim>\<open>while\<close> loop: when the id is still in \<^verbatim>\<open>_sockets\<close>, create the receive
  task and record it under the id; otherwise the loop and the coroutine end.
\<close>

definition run_loop_head :: "string \<Rightarrow> stream \<Rightarrow> nat option \<times> stream" where
  "run_loop_head ident st =
     (if ident \<in> sockets st
      then (Some (next_task st),
            st\<lparr>tasks := AList.update ident (next_task st) (tasks st),
               next_task := Suc (next_task st)\<rparr>)
      else (None, st))"

text \<open>The connection is open: \<^verbatim>\<open>_sockets.add(id)\<close>, then the head of the loop.\<close>

definition run_connected :: "string \<Rightarrow> stream \<Rightarrow> nat option \<times> stream" where
  "run_connected ident st = run_loop_head ident (st\<lparr>sockets := insert ident (sockets st)\<rparr>)"

text \<open>What awaiting the receive task gives: a frame, or the exception it raises.\<close>

datatype recv = Frame string | Closed | Cancelled

text \<open>\<^verbatim>\<open>s.find(p) == 0\<close>: \<open>p\<close> is a prefix of \<open>s\<close>.\<close>

definition starts_with :: "string \<Rightarrow> string \<Rightarrow> bool" where
  "starts_with s p \<longleftrightarrow> take (length p) s = p"

type_synonym callback = "jval \<Rightarrow> stream \<Rightarrow> error option \<times> stream"

text \<open>
  Lines 199-207, from the frame's arrival to the callback. An exception leaves the loop and
  the coroutine: nothing after the raising line runs, and the code has no handler. The
  symbol \<^verbatim>\<open>data['s']\<close> must be a string: lines 89-92 of \<^verbatim>\<open>update_order_book\<close> raise
  TypeError on anything else.
\<close>

definition run_frame ::
  "loads \<Rightarrow> urlopen \<Rightarrow> callback \<Rightarrow> string \<Rightarrow> recv \<Rightarrow> stream \<Rightarrow> error option \<times> stream" where
  "run_frame loads urlopen cb ident r st =
     (case r of
        Closed \<Rightarrow> (Some ConnectionClosed, st)
      | Cancelled \<Rightarrow> (Some CancelledError, st)
      | Frame raw \<Rightarrow>
          (case loads raw of
             Inl e \<Rightarrow> (Some e, st)
           | Inr data \<Rightarrow>
               if ident \<notin> fst ` set (tasks st) then (Some (KeyError ident), st)
               else
                 let st1 = st\<lparr>tasks := AList.delete ident (tasks st)\<rparr> in
                 if starts_with ident ''depth'' then
                   (case (if starts_with ident ''depth_perp'' then getitem data ''data''
                          else Inr data) of
                      Inl e \<Rightarrow> (Some e, st1)
                    | Inr data' \<Rightarrow>
                        (case getitem data' ''s'' of
                           Inl e \<Rightarrow> (Some e, st1)
                         | Inr (JStr symbol) \<Rightarrow>
                             (case update_order_book loads urlopen symbol data' st1 of
                                (Some e, st2) \<Rightarrow> (Some e, st2)
                              | (None, st2) \<Rightarrow> cb data' st2)
                         | Inr _ \<Rightarrow> (Some TypeError, st1)))
                 else cb data st1))"

text \<open>
  What happens to the object over time: the calls of its methods and the stretches of its
  coroutines, in the order the event loop runs them.
\<close>

datatype event =
    OpenStream string
  | OpenStreamPerp string
  | RunBegin string string
  | RunConnected string
  | RunLoopHead string
  | RunFrame loads urlopen string recv
  | UpdateOrderBook loads urlopen string jval
  | Close

fun exec_event :: "callback \<Rightarrow> event \<Rightarrow> stream \<Rightarrow> stream" where
  "exec_event cb (OpenStream symbol) st = open_stream_order_book symbol st"
| "exec_event cb (OpenStreamPerp symbol) st = open_stream_order_book_perp symbol st"
| "exec_event cb (RunBegin url ident) st = snd (run_begin url ident st)"
| "exec_event cb (RunConnected ident) st = snd (run_connected ident st)"
| "exec_event cb (RunLoopHead ident) st = snd (run_loop_head ident st)"
| "exec_event cb (RunFrame loads urlopen ident r) st = snd (run_frame loads urlopen cb ident r st)"
| "exec_event cb (UpdateOrderBook loads urlopen symbol updates) st =
     snd (update_order_book loads urlopen symbol updates st)"
| "exec_event cb Close st = close st"

definition exec_events :: "callback \<Rightarrow> event list \<Rightarrow> stream \<Rightarrow> stream" where
  "exec_events cb evs st = foldl (\<lambda>s ev. exec_event cb ev s) st evs"

section \<open>The spread of the callback\<close>

text \<open>
  Python floats: the finite values of binary64 as the rationals they are, the infinities
  and NaN. The sign of zero is not kept (the two zeros are equal in Python).
\<close>

datatype pyfloat = Fin rat | PInf | NInf | NaN

definition pow2 :: "int \<Rightarrow> rat" where
  "pow2 e = (if 0 \<le> e then 2 ^ nat e else 1 / 2 ^ nat (- e))"

definition round_half_even :: "rat \<Rightarrow> int" where
  "round_half_even x =
     (let f = \<lfloor>x\<rfloor>; d = x - of_int f
      in if d < 1 / 2 then f else if 1 / 2 < d then f + 1 else if even f then f else f + 1)"

text \<open>
  For \<open>q > 0\<close>, the \<open>e\<close> with \<open>2 ^ e \<le> q < 2 ^ (e + 1)\<close>: from the number of bits of
  the integer part when \<open>q \<ge> 1\<close>, and of the reciprocal rounded up, less one, when
  \<open>q < 1\<close> (\<open>bitlen n\<close> is the number of binary digits of \<open>n\<close>).
\<close>

definition floor_log2 :: "rat \<Rightarrow> int" where
  "floor_log2 q =
     (if 1 \<le> q then bitlen \<lfloor>q\<rfloor> - 1 else - bitlen (\<lceil>1 / q\<rceil> - 1))"

text \<open>
  The binary64 value nearest to a rational, ties to even: 53 bits of significand, gradual
  underflow below \<open>2 ^ - 1022\<close>, infinity from \<open>2 ^ 1024\<close> on.
\<close>

definition to_double :: "rat \<Rightarrow> pyfloat" where
  "to_double q =
     (if q = 0 then Fin 0
      else
        let a = \<bar>q\<bar>;
            e = max (floor_log2 a) (- 1022);
            u = pow2 (e - 52);
            r = of_int (round_half_even (a / u)) * u
        in if pow2 1024 \<le> r then (if q < 0 then NInf else PInf)
           else Fin (if q < 0 then - r else r))"

text \<open>\<^verbatim>\<open>x - y\<close> on floats.\<close>

fun fsub :: "pyfloat \<Rightarrow> pyfloat \<Rightarrow> pyfloat" where
  "fsub (Fin a) (Fin b) = to_double (a - b)"
| "fsub NaN _ = NaN"
| "fsub _ NaN = NaN"
| "fsub PInf PInf = NaN"
| "fsub NInf NInf = NaN"
| "fsub PInf _ = PInf"
| "fsub NInf _ = NInf"
| "fsub (Fin a) PInf = NInf"
| "fsub (Fin a) NInf = PInf"

text \<open>
  \<^verbatim>\<open>round(x, 4)\<close>: the exact value of \<open>x\<close> rounded half-even to four decimal places, then
  the nearest float to that; infinities and NaN round to themselves.
\<close>

fun round4 :: "pyfloat \<Rightarrow> pyfloat" where
  "round4 (Fin x) = to_double (of_int (round_half_even (x * 10000)) / 10000)"
| "round4 f = f"

text \<open>
  Lines 41-46 of \<^verbatim>\<open>call_order_book\<close> in main.py, on the book \<^verbatim>\<open>lob\<close> of the symbol: both
  sides are replaced by their sorted copies (asks ascending, bids descending; the items are
  compared as pairs), then the spread is taken from the first key of each.
  \<^verbatim>\<open>list(d.keys())[0]\<close> raises IndexError on an empty dict.
\<close>

definition first_key :: "levels \<Rightarrow> error + rat" where
  "first_key d = (case index (map fst d) 0 of Inl e \<Rightarrow> Inl e | Inr p \<Rightarrow> Inr p)"

definition call_order_book_spread :: "book \<Rightarrow> (error + pyfloat) \<times> book" where
  "call_order_book_spread lob =
     (let lob1 = lob\<lparr>asks := sort (asks lob)\<rparr>;
          lob2 = lob1\<lparr>bids := rev (sort (bids lob1))\<rparr>
      in (case first_key (asks lob2) of
            Inl e \<Rightarrow> (Inl e, lob2)
          | Inr a \<Rightarrow>
              (case first_key (bids lob2) of
                 Inl e \<Rightarrow> (Inl e, lob2)
               | Inr b \<Rightarrow> (Inr (round4 (fsub (to_double a) (to_double b))), lob2))))"

section \<open>The depth schema\<close>

text \<open>
  A body that conforms to the schema of the depth endpoint: it decodes to an object whose
  \<open>bids\<close> and \<open>asks\<close> are arrays of entries that start with two plain decimal numerals
  (those of the grammar given with \<open>Decimal\<close> above).
\<close>

definition is_decimal :: "string \<Rightarrow> bool" where
  "is_decimal s = (case Decimal s of Inl e \<Rightarrow> False | Inr v \<Rightarrow> True)"

definition well_formed_row :: "string list \<Rightarrow> bool" where
  "well_formed_row row \<longleftrightarrow> 2 \<le> length row \<and> is_decimal (row ! 0) \<and> is_decimal (row ! 1)"

definition well_formed_body :: "loads \<Rightarrow> string \<Rightarrow> bool" where
  "well_formed_body loads body =
     (case loads body of
        Inr (JObj kvs) \<Rightarrow>
          (case (map_of kvs ''bids'', map_of kvs ''asks'') of
             (Some (JLevels bs), Some (JLevels as)) \<Rightarrow>
               list_all well_formed_row bs \<and> list_all well_formed_row as
           | _ \<Rightarrow> False)
      | _ \<Rightarrow> False)"

text \<open>
  A callback that leaves the bookkeeping of the sessions alone: it neither opens nor closes
  a stream. The callback of main.py is one: it reads the books and sorts them.
\<close>

definition callback_keeps_registry :: "callback \<Rightarrow> bool" where
  "callback_keeps_registry cb \<longleftrightarrow>
     (\<forall>data st. sockets (snd (cb data st)) = sockets st \<and> tasks (snd (cb data st)) = tasks st)"

text \<open>
  The invariant of the books: every quantity stored is positive. \<open>snapshot_positive\<close> is
  the precondition on the feed, that a snapshot the endpoint returns has positive quantities
  only; an event meets it when the endpoint it brings does, for the symbol of the call or,
  for a frame, whose symbol is inside the frame, for every symbol.
\<close>

definition positive_levels :: "levels \<Rightarrow> bool" where
  "positive_levels d \<longleftrightarrow> list_all (\<lambda>kv. 0 < snd kv) d"

definition positive_book :: "book \<Rightarrow> bool" where
  "positive_book bk \<longleftrightarrow> positive_levels (bids bk) \<and> positive_levels (asks bk)"

definition positive_books :: "stream \<Rightarrow> bool" where
  "positive_books st \<longleftrightarrow>
     list_all (\<lambda>kv. positive_book (snd kv)) (order_books st) \<and>
     list_all (\<lambda>kv. positive_book (snd kv)) (order_books_perp st)"

definition snapshot_positive :: "loads \<Rightarrow> urlopen \<Rightarrow> string \<Rightarrow> bool" where
  "snapshot_positive loads urlopen symbol =
     (case on_order_book loads urlopen symbol of
        Inl e \<Rightarrow> True
      | Inr ob \<Rightarrow> positive_levels (ob_bids ob) \<and> positive_levels (ob_asks ob))"

fun event_snapshots_positive :: "event \<Rightarrow> bool" where
  "event_snapshots_positive (RunFrame loads urlopen ident r) =
     (\<forall>symbol. snapshot_positive loads urlopen symbol)"
| "event_snapshots_positive (UpdateOrderBook loads urlopen symbol updates) =
     snapshot_positive loads urlopen symbol"
| "event_snapshots_positive ev = True"

definition callback_keeps_positive :: "callback \<Rightarrow> bool" where
  "callback_keeps_positive cb \<longleftrightarrow>
     (\<forall>data st. positive_books st \<longrightarrow> positive_books (snd (cb data st)))"

section \<open>A fake transport\<close>

text \<open>
  The REST endpoint and decoder of the concrete scenario: the endpoint answers every request
  with the body \<open>snapshot\<close>, which decodes to the snapshot \<open>bids = [(100.0, 2)]\<close>,
  \<open>asks = [(101.0, 3)]\<close>; the frame \<open>delta\<close> decodes to the depth update of the scenario,
  the text \<open>error\<close> to the object the exchange sends to report an error, and the text
  \<open>degenerate\<close> to an object whose \<open>bids\<close> is the empty string and whose \<open>asks\<close> is the
  empty object. Nothing else decodes.
\<close>

definition example_delta :: jval where
  "example_delta =
     JObj [(''e'', JStr ''depthUpdate''), (''E'', JInt 1672515782136),
           (''s'', JStr ''BTCUSDT''),
           (''a'', JLevels [[''101.0'', ''0''], [''102.0'', ''1'']]),
           (''b'', JLevels [[''100.0'', ''0''], [''99.5'', ''4'']])]"

text \<open>A depth update that only adds levels: an ask at 102.0 and a bid at 99.5.\<close>

definition example_addition :: jval where
  "example_addition =
     JObj [(''e'', JStr ''depthUpdate''), (''E'', JInt 1672515782136),
           (''s'', JStr ''BTCUSDT''),
           (''a'', JLevels [[''102.0'', ''1'']]),
           (''b'', JLevels [[''99.5'', ''4'']])]"

definition example_loads :: loads where
  "example_loads s =
     (if s = ''snapshot'' then
        Inr (JObj [(''lastUpdateId'', JInt 1027024),
                   (''bids'', JLevels [[''100.0'', ''2'']]),
                   (''asks'', JLevels [[''101.0'', ''3'']])])
      else if s = ''delta'' then Inr example_delta
      else if s = ''addition'' then Inr example_addition
      else if s = ''error'' then
        Inr (JObj [(''code'', JInt (- 1121)), (''msg'', JStr ''Invalid symbol.'')])
      else if s = ''degenerate'' then
        Inr (JObj [(''bids'', JStr []), (''asks'', JObj [])])
      else Inl (JSONDecodeError s))"

definition example_urlopen :: urlopen where
  "example_urlopen req = Response ''snapshot''"

text \<open>An endpoint that gives every request the same answer.\<close>

definition always :: "http_outcome \<Rightarrow> urlopen" where
  "always outcome req = outcome"

text \<open>A callback that does nothing.\<close>

definition no_callback :: callback where
  "no_callback data st = (None, st)"

text \<open>
  A session for BTCUSDT: opened, connected and waiting for its first frame; and the same
  after it has processed the frame \<open>delta\<close>, about to sleep before the next receive.
\<close>

text \<open>
  The list of pairs names BTCUSDT twice: both streams were opened before the event loop
  ran, and both \<^verbatim>\<open>run\<close> tasks have started and are waiting for their connections.
\<close>

definition example_two_starts :: stream where
  "example_two_starts =
     exec_events no_callback
       [OpenStream ''BTCUSDT'',
        OpenStream ''BTCUSDT'',
        RunBegin ''wss://stream.binance.com:9443/ws/btcusdt@depth'' ''depth_btcusdt'',
        RunBegin ''wss://stream.binance.com:9443/ws/btcusdt@depth'' ''depth_btcusdt'']
       init"

definition example_connected :: stream where
  "example_connected =
     exec_events no_callback
       [OpenStream ''BTCUSDT'',
        RunBegin ''wss://stream.binance.com:9443/ws/btcusdt@depth'' ''depth_btcusdt'',
        RunConnected ''depth_btcusdt'']
       init"

definition example_session :: stream where
  "example_session =
     exec_events no_callback
       [OpenStream ''BTCUSDT'',
        RunBegin ''wss://stream.binance.com:9443/ws/btcusdt@depth'' ''depth_btcusdt'',
        RunConnected ''depth_btcusdt'',
        RunFrame example_loads example_urlopen ''depth_btcusdt'' (Frame ''delta'')]
       init"

section \<open>Lemmas on the dictionaries\<close>

lemma update_level_map_of:
  "map_of (update_level d p q) = (if 0 < q then (map_of d)(p \<mapsto> q) else (map_of d)(p := None))"
  by (auto simp: update_level_def AList.update_conv' AList.delete_conv' map_of_eq_None_iff
        fun_upd_idem)

lemma update_level_distinct:
  "distinct (map fst d) \<Longrightarrow> distinct (map fst (update_level d p q))"
  by (simp add: update_level_def AList.distinct_update AList.distinct_delete)

lemma count_key_distinct:
  "distinct (map fst d) \<Longrightarrow>
     length (filter (\<lambda>kv. fst kv = p) d) = (if p \<in> fst ` set d then 1 else 0)"
  by (induction d) (auto simp: image_iff)

lemma update_level_absent:
  "\<not> 0 < q \<Longrightarrow> map_of d p = None \<Longrightarrow> update_level d p q = d"
  by (simp add: update_level_def map_of_eq_None_iff)

section \<open>Evaluating the numerals\<close>

lemmas Decimal_eval = Decimal_def all_digits_def is_digit_def digits_val_def digit_val_def
  pow10_def is_exp_mark_def exponent_of_def

lemma Decimal_examples:
  "Decimal ''100.0'' = Inr 100" "Decimal ''101.0'' = Inr 101" "Decimal ''102.0'' = Inr 102"
  "Decimal ''99.5'' = Inr (199 / 2)" "Decimal ''0'' = Inr 0" "Decimal ''1'' = Inr 1"
  "Decimal ''2'' = Inr 2" "Decimal ''3'' = Inr 3" "Decimal ''4'' = Inr 4" "Decimal ''5'' = Inr 5"
  by (simp_all add: Decimal_eval)

lemma bitlen_examples: "bitlen 102 = 7" "bitlen 99 = 7" "bitlen 2 = 2"
  by (simp_all add: compute_bitlen)

lemma floor_examples: "\<lfloor>199 / 2 :: rat\<rfloor> = 99" "\<lfloor>5 / 2 :: rat\<rfloor> = 2"
  by (simp_all add: floor_eq_iff)

lemma floor_log2_examples:
  "floor_log2 102 = 6" "floor_log2 (199 / 2) = 6" "floor_log2 (5 / 2) = 1"
  by (simp_all add: floor_log2_def bitlen_examples floor_examples)

lemma to_double_examples:
  "to_double 102 = Fin 102" "to_double (199 / 2) = Fin (199 / 2)" "to_double (5 / 2) = Fin (5 / 2)"
  by (simp_all add: to_double_def floor_log2_examples pow2_def round_half_even_def Let_def)

lemma example_snapshot:
  "on_order_book example_loads example_urlopen ''BTCUSDT'' = Inr (OrderBook [(100, 2)] [(101, 3)])"
  by (simp add: on_order_book_def example_loads_def example_urlopen_def field_levels_def
        index_def Decimal_examples)

lemma example_apply:
  "apply_updates \<lparr>bids = [(100, 2)], asks = [(101, 3)]\<rparr> example_delta
     = (None, \<lparr>bids = [(199 / 2, 4)], asks = [(102, 1)]\<rparr>)"
  by (simp add: apply_updates_def example_delta_def index_def Decimal_examples update_level_def
        AList.delete_eq)

lemma example_spread:
  "call_order_book_spread \<lparr>bids = [(199 / 2, 4)], asks = [(102, 1)]\<rparr>
     = (Inr (Fin (5 / 2)), \<lparr>bids = [(199 / 2, 4)], asks = [(102, 1)]\<rparr>)"
  by (simp add: call_order_book_spread_def first_key_def index_def to_double_examples
        round_half_even_def)

lemma example_opened:
  "lookup (order_books (open_stream_order_book ''BTCUSDT'' init)) ''BTCUSDT'' = Inr empty_book"
  by (simp add: open_stream_order_book_def init_def lookup_def)

lemma example_initialize:
  "initialize_book example_loads example_urlopen ''BTCUSDT'' empty_book
     = (None, True, \<lparr>bids = [(100, 2)], asks = [(101, 3)]\<rparr>)"
  by (simp add: initialize_book_def example_snapshot empty_book_def set_levels_def)

lemma example_update:
  "update_order_book example_loads example_urlopen ''BTCUSDT'' example_delta
     (open_stream_order_book ''BTCUSDT'' init)
   = (None, log_request True ''BTCUSDT''
        (store_book ''BTCUSDT'' \<lparr>bids = [(199 / 2, 4)], asks = [(102, 1)]\<rparr>
           (open_stream_order_book ''BTCUSDT'' init)))"
  by (simp add: update_order_book_def example_opened example_initialize example_apply)

lemma lower_btcusdt: "lower ''BTCUSDT'' = ''btcusdt''"
  by code_simp

lemma example_session_eq:
  "example_session =
     \<lparr>order_books = [(''BTCUSDT'', \<lparr>bids = [(199 / 2, 4)], asks = [(102, 1)]\<rparr>)],
      order_books_perp = [], sockets = {''depth_btcusdt''}, tasks = [],
      requests = [depth_request ''BTCUSDT''],
      connects = [''wss://stream.binance.com:9443/ws/btcusdt@depth''],
      scheduled = [(''wss://stream.binance.com:9443/ws/btcusdt@depth'', ''depth_btcusdt'')],
      cancelled = {}, next_task = 1\<rparr>"
proof -
  let ?url = "''wss://stream.binance.com:9443/ws/btcusdt@depth''"
  let ?s1 = "\<lparr>order_books = [(''BTCUSDT'', empty_book)], order_books_perp = [],
      sockets = {}, tasks = [], requests = [], connects = [],
      scheduled = [(?url, ''depth_btcusdt'')], cancelled = {}, next_task = 0\<rparr>"
  let ?s2 = "?s1\<lparr>connects := [?url]\<rparr>"
  let ?s3 = "?s2\<lparr>sockets := {''depth_btcusdt''}, tasks := [(''depth_btcusdt'', 0)],
      next_task := 1\<rparr>"
  let ?s3' = "?s3\<lparr>tasks := []\<rparr>"
  let ?s4 = "?s3'\<lparr>order_books := [(''BTCUSDT'', \<lparr>bids = [(199 / 2, 4)], asks = [(102, 1)]\<rparr>)],
      requests := [depth_request ''BTCUSDT'']\<rparr>"
  have e1: "exec_event no_callback (OpenStream ''BTCUSDT'') init = ?s1"
    by (simp add: open_stream_order_book_def lower_btcusdt init_def)
  have e2: "exec_event no_callback (RunBegin ?url ''depth_btcusdt'') ?s1 = ?s2"
    by (simp add: run_begin_def)
  have e3: "exec_event no_callback (RunConnected ''depth_btcusdt'') ?s2 = ?s3"
    by (simp add: run_connected_def run_loop_head_def)
  have u: "update_order_book example_loads example_urlopen ''BTCUSDT'' example_delta ?s3'
      = (None, ?s4)"
    by (simp add: update_order_book_def lookup_def example_initialize example_apply
          store_book_def log_request_def)
  have s: "getitem example_delta ''s'' = Inr (JStr ''BTCUSDT'')"
    by (simp add: example_delta_def)
  have e4: "exec_event no_callback
      (RunFrame example_loads example_urlopen ''depth_btcusdt'' (Frame ''delta'')) ?s3 = ?s4"
    using u by (simp add: run_frame_def example_loads_def starts_with_def AList.delete_eq s
        no_callback_def)
  have "example_session = ?s4"
    by (simp only: example_session_def exec_events_def foldl.simps e1 e2 e3 e4)
  then show ?thesis by simp
qed

section \<open>Merging a delta into the book\<close>

text \<open>
  Claim C1. Lines 102-116 on a frame with one update entry \<open>(price, qty)\<close> for one side,
  on any book (a dict has each key once): no exception; the other side and every other
  price of the same side stay as they were; when \<open>qty > 0\<close> the side then has the price
  exactly once, with quantity \<open>qty\<close>; when \<open>qty \<le> 0\<close> the price is no longer on the side,
  and if it was not there before the whole book is unchanged. Two entries for the same
  price, the second with \<open>qty' > 0\<close>, leave the price once with quantity \<open>qty'\<close>.
\<close>

theorem apply_updates_level_semantics:
  assumes "distinct (map fst (asks bk))" and "distinct (map fst (bids bk))"
    and "Decimal ps = Inr p" and "Decimal qs = Inr q" and "Decimal qs' = Inr q'"
  shows
   "(let r = apply_updates bk (JObj [(''a'', JLevels [[ps, qs]]), (''b'', JLevels [])]) in
      fst r = None \<and> bids (snd r) = bids bk \<and>
      (\<forall>p'. p' \<noteq> p \<longrightarrow> map_of (asks (snd r)) p' = map_of (asks bk) p') \<and>
      (0 < q \<longrightarrow> map_of (asks (snd r)) p = Some q \<and>
                 length (filter (\<lambda>kv. fst kv = p) (asks (snd r))) = 1) \<and>
      (q \<le> 0 \<longrightarrow> map_of (asks (snd r)) p = None \<and>
                 (map_of (asks bk) p = None \<longrightarrow> snd r = bk))) \<and>
    (let r = apply_updates bk (JObj [(''a'', JLevels []), (''b'', JLevels [[ps, qs]])]) in
      fst r = None \<and> asks (snd r) = asks bk \<and>
      (\<forall>p'. p' \<noteq> p \<longrightarrow> map_of (bids (snd r)) p' = map_of (bids bk) p') \<and>
      (0 < q \<longrightarrow> map_of (bids (snd r)) p = Some q \<and>
                 length (filter (\<lambda>kv. fst kv = p) (bids (snd r))) = 1) \<and>
      (q \<le> 0 \<longrightarrow> map_of (bids (snd r)) p = None \<and>
                 (map_of (bids bk) p = None \<longrightarrow> snd r = bk))) \<and>
    (0 < q' \<longrightarrow>
      (let r = apply_updates bk
                 (JObj [(''a'', JLevels [[ps, qs], [ps, qs']]), (''b'', JLevels [])]) in
         fst r = None \<and> map_of (asks (snd r)) p = Some q' \<and>
         length (filter (\<lambda>kv. fst kv = p) (asks (snd r))) = 1) \<and>
      (let r = apply_updates bk
                 (JObj [(''a'', JLevels []), (''b'', JLevels [[ps, qs], [ps, qs']])]) in
         fst r = None \<and> map_of (bids (snd r)) p = Some q' \<and>
         length (filter (\<lambda>kv. fst kv = p) (bids (snd r))) = 1))"
proof -
  have side: "\<And>d. distinct (map fst d) \<Longrightarrow>
      (\<forall>p'. p' \<noteq> p \<longrightarrow> map_of (update_level d p q) p' = map_of d p') \<and>
      (0 < q \<longrightarrow> map_of (update_level d p q) p = Some q \<and>
                 length (filter (\<lambda>kv. fst kv = p) (update_level d p q)) = 1) \<and>
      (q \<le> 0 \<longrightarrow> map_of (update_level d p q) p = None \<and>
                 (map_of d p = None \<longrightarrow> update_level d p q = d))"
    by (auto simp: update_level_map_of count_key_distinct update_level_distinct
          update_level_absent dom_map_of_conv_image_fst [symmetric] domIff)
  have twice: "\<And>d. distinct (map fst d) \<Longrightarrow> 0 < q' \<Longrightarrow>
      map_of (update_level (update_level d p q) p q') p = Some q' \<and>
      length (filter (\<lambda>kv. fst kv = p) (update_level (update_level d p q) p q')) = 1"
    by (auto simp: update_level_map_of count_key_distinct update_level_distinct
          dom_map_of_conv_image_fst [symmetric] domIff)
  have a: "apply_updates bk (JObj [(''a'', JLevels [[ps, qs]]), (''b'', JLevels [])])
      = (None, bk\<lparr>asks := update_level (asks bk) p q\<rparr>)"
    using assms(3,4) by (simp add: apply_updates_def index_def)
  have b: "apply_updates bk (JObj [(''a'', JLevels []), (''b'', JLevels [[ps, qs]])])
      = (None, bk\<lparr>bids := update_level (bids bk) p q\<rparr>)"
    using assms(3,4) by (simp add: apply_updates_def index_def)
  have a2: "apply_updates bk (JObj [(''a'', JLevels [[ps, qs], [ps, qs']]), (''b'', JLevels [])])
      = (None, bk\<lparr>asks := update_level (update_level (asks bk) p q) p q'\<rparr>)"
    using assms(3,4,5) by (simp add: apply_updates_def index_def)
  have b2: "apply_updates bk (JObj [(''a'', JLevels []), (''b'', JLevels [[ps, qs], [ps, qs']])])
      = (None, bk\<lparr>bids := update_level (update_level (bids bk) p q) p q'\<rparr>)"
    using assms(3,4,5) by (simp add: apply_updates_def index_def)
  show ?thesis
    unfolding a b a2 b2 Let_def fst_conv snd_conv
    using side [OF assms(1)] side [OF assms(2)] twice [OF assms(1)] twice [OF assms(2)]
    by simp
qed

text \<open>
  The theorem at the book \<open>bids = {100: 2}, asks = {101: 3}\<close> and the entries
  \<open>("101.0", "0")\<close> then \<open>("101.0", "5")\<close>.
\<close>

theorem apply_updates_level_semantics_witness:
  "distinct (map fst (asks \<lparr>bids = [(100, 2)], asks = [(101, 3)]\<rparr>)) \<and>
   distinct (map fst (bids \<lparr>bids = [(100, 2)], asks = [(101, 3)]\<rparr>)) \<and>
   Decimal ''101.0'' = Inr 101 \<and> Decimal ''0'' = Inr 0 \<and> Decimal ''5'' = Inr 5 \<and>
   map_of (asks (snd (apply_updates \<lparr>bids = [(100, 2)], asks = [(101, 3)]\<rparr>
      (JObj [(''a'', JLevels [[''101.0'', ''0'']]), (''b'', JLevels [])])))) 101 = None \<and>
   map_of (bids (snd (apply_updates \<lparr>bids = [(100, 2)], asks = [(101, 3)]\<rparr>
      (JObj [(''a'', JLevels []), (''b'', JLevels [[''101.0'', ''0'']])])))) 100 = Some 2 \<and>
   map_of (asks (snd (apply_updates \<lparr>bids = [(100, 2)], asks = [(101, 3)]\<rparr>
      (JObj [(''a'', JLevels [[''101.0'', ''0''], [''101.0'', ''5'']]),
             (''b'', JLevels [])])))) 101 = Some 5"
proof -
  have h1: "distinct (map fst (asks \<lparr>bids = [(100, 2)], asks = [(101 :: rat, 3 :: rat)]\<rparr>))"
    by simp
  have h2: "distinct (map fst (bids \<lparr>bids = [(100 :: rat, 2 :: rat)], asks = [(101, 3)]\<rparr>))"
    by simp
  have h3: "Decimal ''101.0'' = Inr 101" by (rule Decimal_examples)
  have h4: "Decimal ''0'' = Inr 0" by (rule Decimal_examples)
  have h5: "Decimal ''5'' = Inr 5" by (rule Decimal_examples)
  show ?thesis
    using apply_updates_level_semantics [OF h1 h2 h3 h4 h5] h1 h2 h3 h4 h5
    by (simp add: Let_def)
qed

section \<open>Bootstrap on the first update\<close>

lemma map_of_update_same: "map_of al k = Some v \<Longrightarrow> AList.update k v al = al"
  by (induction al) (auto split: if_splits)










section \<open>The concrete scenario\<close>

text \<open>
  Claim C7. The delta \<open>a = [["101.0","0"],["102.0","1"]]\<close>,
  \<open>b = [["100.0","0"],["99.5","4"]]\<close> merged into the book \<open>bids = {100: 2}\<close>,
  \<open>asks = {101: 3}\<close> gives \<open>bids = {99.5: 4}\<close>, \<open>asks = {102: 1}\<close>; so does
  \<^verbatim>\<open>update_order_book\<close> with that delta on a book just opened, which fetches the snapshot
  first; and the callback's spread on the resulting book is the float 2.5.
\<close>

theorem concrete_scenario:
  "apply_updates \<lparr>bids = [(100, 2)], asks = [(101, 3)]\<rparr> example_delta
     = (None, \<lparr>bids = [(199 / 2, 4)], asks = [(102, 1)]\<rparr>) \<and>
   fst (update_order_book example_loads example_urlopen ''BTCUSDT'' example_delta
          (open_stream_order_book ''BTCUSDT'' init)) = None \<and>
   get_order_book
     (snd (update_order_book example_loads example_urlopen ''BTCUSDT'' example_delta
             (open_stream_order_book ''BTCUSDT'' init))) ''BTCUSDT''
     = Inr \<lparr>bids = [(199 / 2, 4)], asks = [(102, 1)]\<rparr> \<and>
   fst (call_order_book_spread \<lparr>bids = [(199 / 2, 4)], asks = [(102, 1)]\<rparr>) = Inr (Fin (5 / 2))"
  unfolding example_update example_apply example_spread
  by (simp add: get_order_book_def lookup_def log_request_def store_book_def
        open_stream_order_book_def init_def)

section \<open>Lookups of a symbol that has no book\<close>

text \<open>
  Claim C9. A symbol that is not a key of the dict a method reads makes the method raise
  KeyError: \<^verbatim>\<open>get_order_book\<close> reads the spot books, \<^verbatim>\<open>get_order_book_perp\<close> the perpetual
  ones, and \<^verbatim>\<open>update_order_book\<close> fails, leaving the object as it was, for a symbol that is
  in neither. No book is returned and none is created.
\<close>

theorem unopened_symbol_key_error:
  "(map_of (order_books st) symbol = None \<longrightarrow>
      get_order_book st symbol = Inl (KeyError symbol)) \<and>
   (map_of (order_books_perp st) symbol = None \<longrightarrow>
      get_order_book_perp st symbol = Inl (KeyError symbol)) \<and>
   (map_of (order_books st) symbol = None \<and> map_of (order_books_perp st) symbol = None \<longrightarrow>
      update_order_book loads urlopen symbol updates st = (Some (KeyError symbol), st))"
  by (simp add: get_order_book_def get_order_book_perp_def update_order_book_def lookup_def)

theorem unopened_symbol_key_error_witness:
  "map_of (order_books init) ''BTCUSDT'' = None \<and>
   map_of (order_books_perp init) ''BTCUSDT'' = None \<and>
   get_order_book init ''BTCUSDT'' = Inl (KeyError ''BTCUSDT'') \<and>
   get_order_book_perp init ''BTCUSDT'' = Inl (KeyError ''BTCUSDT'') \<and>
   update_order_book example_loads example_urlopen ''BTCUSDT'' example_delta init
     = (Some (KeyError ''BTCUSDT''), init)"
  using unopened_symbol_key_error [of init "''BTCUSDT''" example_loads example_urlopen example_delta]
  by (simp add: init_def)

section \<open>Shutdown\<close>

text \<open>
  What \<^verbatim>\<open>close\<close> does for the tasks that the dict \<^verbatim>\<open>_tasks\<close> holds: the set of open ids is
  empty afterwards, and \<^verbatim>\<open>cancel()\<close> has been called on each of them.
\<close>

lemma close_cancels_recorded:
  "sockets (close st) = {} \<and>
   (\<forall>ident t. map_of (tasks st) ident = Some t \<longrightarrow> t \<in> cancelled (close st))"
  by (force simp: close_def dest: map_of_SomeD)

lemma example_two_starts_eq:
  "example_two_starts =
     \<lparr>order_books = [(''BTCUSDT'', empty_book)], order_books_perp = [],
      sockets = {}, tasks = [], requests = [],
      connects = [''wss://stream.binance.com:9443/ws/btcusdt@depth'',
                  ''wss://stream.binance.com:9443/ws/btcusdt@depth''],
      scheduled = [(''wss://stream.binance.com:9443/ws/btcusdt@depth'', ''depth_btcusdt''),
                   (''wss://stream.binance.com:9443/ws/btcusdt@depth'', ''depth_btcusdt'')],
      cancelled = {}, next_task = 0\<rparr>"
proof -
  let ?url = "''wss://stream.binance.com:9443/ws/btcusdt@depth''"
  let ?s1 = "\<lparr>order_books = [(''BTCUSDT'', empty_book)], order_books_perp = [],
      sockets = {}, tasks = [], requests = [], connects = [],
      scheduled = [(?url, ''depth_btcusdt'')], cancelled = {}, next_task = 0\<rparr>"
  let ?s2 = "?s1\<lparr>scheduled := [(?url, ''depth_btcusdt''), (?url, ''depth_btcusdt'')]\<rparr>"
  let ?s3 = "?s2\<lparr>connects := [?url]\<rparr>"
  let ?s4 = "?s2\<lparr>connects := [?url, ?url]\<rparr>"
  have e1: "exec_event no_callback (OpenStream ''BTCUSDT'') init = ?s1"
    by (simp add: open_stream_order_book_def lower_btcusdt init_def)
  have e2: "exec_event no_callback (OpenStream ''BTCUSDT'') ?s1 = ?s2"
    by (simp add: open_stream_order_book_def lower_btcusdt)
  have e3: "exec_event no_callback (RunBegin ?url ''depth_btcusdt'') ?s2 = ?s3"
    by (simp add: run_begin_def)
  have e4: "exec_event no_callback (RunBegin ?url ''depth_btcusdt'') ?s3 = ?s4"
    by (simp add: run_begin_def)
  have "example_two_starts = ?s4"
    by (simp only: example_two_starts_def exec_events_def foldl.simps e1 e2 e3 e4)
  then show ?thesis by simp
qed

text \<open>
  Claim C4, at a state the code reaches when a symbol is opened twice before the event loop
  runs. Both \<^verbatim>\<open>run\<close> coroutines have passed the check for duplicates, because an id enters
  \<^verbatim>\<open>_sockets\<close> only once its connection is open, and both have asked for a connection. The
  first to be connected creates its receive task, task 0, and records it under the id; the
  second creates task 1 and records it under the same id, in place of task 0. Both receives
  are pending when \<^verbatim>\<open>close\<close> is called. Afterwards the set of open ids is empty and task 1
  is cancelled, but \<^verbatim>\<open>cancel()\<close> was never called on task 0.
\<close>

theorem close_misses_overwritten_receive:
  "connects example_two_starts
     = [''wss://stream.binance.com:9443/ws/btcusdt@depth'',
        ''wss://stream.binance.com:9443/ws/btcusdt@depth''] \<and>
   fst (run_connected ''depth_btcusdt'' example_two_starts) = Some 0 \<and>
   fst (run_connected ''depth_btcusdt''
          (snd (run_connected ''depth_btcusdt'' example_two_starts))) = Some 1 \<and>
   tasks (snd (run_connected ''depth_btcusdt''
          (snd (run_connected ''depth_btcusdt'' example_two_starts))))
     = [(''depth_btcusdt'', 1)] \<and>
   sockets (close (snd (run_connected ''depth_btcusdt''
          (snd (run_connected ''depth_btcusdt'' example_two_starts))))) = {} \<and>
   cancelled (close (snd (run_connected ''depth_btcusdt''
          (snd (run_connected ''depth_btcusdt'' example_two_starts))))) = {1} \<and>
   0 \<notin> cancelled (close (snd (run_connected ''depth_btcusdt''
          (snd (run_connected ''depth_btcusdt'' example_two_starts)))))"
  by (simp add: example_two_starts_eq run_connected_def run_loop_head_def close_def)

section \<open>The spread\<close>

lemma sorted_hd_Min: "sorted xs \<Longrightarrow> xs \<noteq> [] \<Longrightarrow> hd xs = Min (set xs)"
  by (cases xs) (auto intro!: Min_eqI [symmetric])

lemma sorted_last_Max: "sorted xs \<Longrightarrow> xs \<noteq> [] \<Longrightarrow> last xs = Max (set xs)"
  by (induction xs) (auto simp: max_def intro!: Max_eqI [symmetric] antisym)

lemma fst_mono_lex: "mono (fst :: rat \<times> rat \<Rightarrow> rat)"
  by (auto simp: mono_def less_eq_prod_def)

lemma first_key_sort:
  "d \<noteq> [] \<Longrightarrow> first_key (sort d) = Inr (Min (fst ` set d))"
proof -
  assume ne: "d \<noteq> []"
  then have ne': "sort d \<noteq> []" by (metis length_sort length_0_conv)
  have "fst (hd (sort d)) = fst (Min (set d))"
    using sorted_hd_Min [of "sort d"] ne' by simp
  also have "\<dots> = Min (fst ` set d)"
    using ne by (intro mono_Min_commute fst_mono_lex) auto
  finally show ?thesis
    using ne ne' by (simp add: first_key_def index_def hd_conv_nth hd_map)
qed

lemma first_key_rev_sort:
  "d \<noteq> [] \<Longrightarrow> first_key (rev (sort d)) = Inr (Max (fst ` set d))"
proof -
  assume ne: "d \<noteq> []"
  then have ne': "sort d \<noteq> []" by (metis length_sort length_0_conv)
  have "fst (hd (rev (sort d))) = fst (Max (set d))"
    using sorted_last_Max [of "sort d"] ne' by (simp add: hd_rev)
  also have "\<dots> = Max (fst ` set d)"
    using ne by (intro mono_Max_commute fst_mono_lex) auto
  finally show ?thesis
    using ne ne' by (simp add: first_key_def index_def hd_conv_nth hd_map)
qed

lemma first_key_Nil: "first_key [] = Inl IndexError"
  by (simp add: first_key_def index_def)

text \<open>
  Claim C8, as the code has it. With both sides non-empty the callback's spread is
  \<^verbatim>\<open>round(float(a) - float(b), 4)\<close> for \<open>a\<close> the lowest ask price and \<open>b\<close> the highest bid
  price; with an empty side it raises IndexError, and no value is returned.
\<close>

theorem spread_defined_or_index_error:
  "(asks lob \<noteq> [] \<and> bids lob \<noteq> [] \<longrightarrow>
      fst (call_order_book_spread lob) =
        Inr (round4 (fsub (to_double (Min (fst ` set (asks lob))))
                          (to_double (Max (fst ` set (bids lob))))))) \<and>
   (asks lob = [] \<or> bids lob = [] \<longrightarrow> fst (call_order_book_spread lob) = Inl IndexError)"
proof (intro conjI impI)
  assume "asks lob \<noteq> [] \<and> bids lob \<noteq> []"
  then show "fst (call_order_book_spread lob) =
        Inr (round4 (fsub (to_double (Min (fst ` set (asks lob))))
                          (to_double (Max (fst ` set (bids lob))))))"
    by (simp add: call_order_book_spread_def Let_def first_key_sort first_key_rev_sort)
next
  assume "asks lob = [] \<or> bids lob = []"
  then show "fst (call_order_book_spread lob) = Inl IndexError"
  proof
    assume "asks lob = []"
    then show ?thesis
      by (simp add: call_order_book_spread_def Let_def first_key_Nil)
  next
    assume b: "bids lob = []"
    show ?thesis
    proof (cases "asks lob = []")
      case True
      then show ?thesis
        by (simp add: call_order_book_spread_def Let_def first_key_Nil)
    next
      case False
      then show ?thesis
        using b by (simp add: call_order_book_spread_def Let_def first_key_Nil first_key_sort)
    qed
  qed
qed

text \<open>The theorem at the book of the scenario, and at a book with no asks.\<close>

theorem spread_defined_or_index_error_witness:
  "asks \<lparr>bids = [(199 / 2, 4)], asks = [(102 :: rat, 1 :: rat)]\<rparr> \<noteq> [] \<and>
   bids \<lparr>bids = [(199 / 2 :: rat, 4 :: rat)], asks = [(102, 1)]\<rparr> \<noteq> [] \<and>
   fst (call_order_book_spread \<lparr>bids = [(199 / 2, 4)], asks = [(102, 1)]\<rparr>)
     = Inr (Fin (5 / 2)) \<and>
   asks \<lparr>bids = [(100 :: rat, 2 :: rat)], asks = []\<rparr> = [] \<and>
   fst (call_order_book_spread \<lparr>bids = [(100, 2)], asks = []\<rparr>) = Inl IndexError"
proof -
  have h1: "asks \<lparr>bids = [(199 / 2, 4)], asks = [(102 :: rat, 1 :: rat)]\<rparr> \<noteq> [] \<and>
            bids \<lparr>bids = [(199 / 2 :: rat, 4 :: rat)], asks = [(102, 1)]\<rparr> \<noteq> []"
    by simp
  have h2: "asks \<lparr>bids = [(100 :: rat, 2 :: rat)], asks = []\<rparr> = [] \<or>
            bids \<lparr>bids = [(100 :: rat, 2 :: rat)], asks = []\<rparr> = []"
    by simp
  have c1: "fst (call_order_book_spread \<lparr>bids = [(199 / 2, 4)], asks = [(102, 1)]\<rparr>)
     = Inr (Fin (5 / 2))"
    using spread_defined_or_index_error [THEN conjunct1, rule_format, OF h1]
    by (simp add: to_double_examples round_half_even_def)
  have c2: "fst (call_order_book_spread \<lparr>bids = [(100, 2)], asks = []\<rparr>) = Inl IndexError"
    by (rule spread_defined_or_index_error [THEN conjunct2, rule_format, OF h2])
  from h1 c1 c2 show ?thesis by simp
qed

text \<open>
  Against the claim as stated: on a book with asks and no bids the spread is no absent
  value, it is the exception IndexError.
\<close>

theorem spread_empty_side_counterexample:
  "fst (call_order_book_spread \<lparr>bids = [], asks = [(102, 1)]\<rparr>) = Inl IndexError"
  by (simp add: call_order_book_spread_def first_key_def index_def)

section \<open>Starting a session twice\<close>

lemma run_begin_duplicate: "ident \<in> sockets st \<Longrightarrow> run_begin url ident st = (False, st)"
  by (simp add: run_begin_def)

text \<open>
  Claim C3, at a session for BTCUSDT that is open and holds a book. Calling
  \<^verbatim>\<open>open_stream_order_book\<close> for BTCUSDT again stores an empty book under the symbol
  before the new \<^verbatim>\<open>run\<close> task is even created; that task, once it starts, finds the id in
  \<^verbatim>\<open>_sockets\<close> and returns without connecting, leaving the object as it is.
\<close>

theorem duplicate_start_resets_book:
  "''depth_btcusdt'' \<in> sockets example_session \<and>
   get_order_book example_session ''BTCUSDT''
     = Inr \<lparr>bids = [(199 / 2, 4)], asks = [(102, 1)]\<rparr> \<and>
   get_order_book (open_stream_order_book ''BTCUSDT'' example_session) ''BTCUSDT''
     = Inr empty_book \<and>
   scheduled (open_stream_order_book ''BTCUSDT'' example_session)
     = scheduled example_session
         @ [(''wss://stream.binance.com:9443/ws/btcusdt@depth'', ''depth_btcusdt'')] \<and>
   run_begin ''wss://stream.binance.com:9443/ws/btcusdt@depth'' ''depth_btcusdt''
       (open_stream_order_book ''BTCUSDT'' example_session)
     = (False, open_stream_order_book ''BTCUSDT'' example_session)"
  by (simp add: example_session_eq get_order_book_def lookup_def open_stream_order_book_def
        lower_btcusdt run_begin_def)

section \<open>Failures of the snapshot fetch\<close>

lemma decimal_levels_well_formed:
  "list_all well_formed_row rows \<Longrightarrow> \<exists>ls. decimal_levels rows = Inr ls"
  by (induction rows)
     (auto simp: well_formed_row_def is_decimal_def index_def split: sum.splits)

lemma well_formed_bodyD:
  assumes "well_formed_body loads body"
  shows "\<exists>kvs bs as. loads body = Inr (JObj kvs) \<and>
           map_of kvs ''bids'' = Some (JLevels bs) \<and> map_of kvs ''asks'' = Some (JLevels as) \<and>
           list_all well_formed_row bs \<and> list_all well_formed_row as"
proof (cases "loads body")
  case (Inl e)
  with assms show ?thesis by (simp add: well_formed_body_def)
next
  case (Inr res)
  show ?thesis
  proof (cases res)
    case (JObj kvs)
    show ?thesis
    proof (cases "map_of kvs ''bids''")
      case None
      with assms Inr JObj show ?thesis by (simp add: well_formed_body_def)
    next
      case b: (Some vb)
      show ?thesis
      proof (cases "map_of kvs ''asks''")
        case None
        with assms Inr JObj b show ?thesis
          by (cases vb) (simp_all add: well_formed_body_def)
      next
        case a: (Some va)
        with assms Inr JObj b show ?thesis
          by (cases vb; cases va) (simp_all add: well_formed_body_def)
      qed
    qed
  qed (use assms Inr in \<open>simp_all add: well_formed_body_def\<close>)
qed

lemma on_order_book_well_formed:
  assumes "urlopen (depth_request symbol) = Response body" and "well_formed_body loads body"
  shows "\<exists>ob. on_order_book loads urlopen symbol = Inr ob"
proof -
  from well_formed_bodyD [OF assms(2)] obtain kvs bs as where
    l: "loads body = Inr (JObj kvs)" and
    b: "map_of kvs ''bids'' = Some (JLevels bs)" and
    a: "map_of kvs ''asks'' = Some (JLevels as)" and
    wb: "list_all well_formed_row bs" and wa: "list_all well_formed_row as"
    by blast
  from decimal_levels_well_formed [OF wb] obtain lb where lb: "decimal_levels bs = Inr lb" ..
  from decimal_levels_well_formed [OF wa] obtain la where la: "decimal_levels as = Inr la" ..
  show ?thesis
    by (simp add: on_order_book_def assms(1) l field_levels_def b a lb la)
qed

lemma on_order_book_error:
  assumes "on_order_book loads urlopen symbol = Inl e"
  shows "(\<exists>b. urlopen (depth_request symbol) = HTTPError b \<and> e = Exception (bytes_repr b)) \<or>
         (\<exists>b. urlopen (depth_request symbol) = Response b \<and> \<not> well_formed_body loads b)"
proof (cases "urlopen (depth_request symbol)")
  case (HTTPError body)
  with assms show ?thesis by (simp add: on_order_book_def)
next
  case (Response body)
  have "\<not> well_formed_body loads body"
    using on_order_book_well_formed [of urlopen symbol body loads] Response assms by auto
  with Response show ?thesis by simp
qed

lemma store_book_same:
  "(if CHR ''_'' \<in> set symbol then lookup (order_books_perp st) symbol
    else lookup (order_books st) symbol) = Inr bk \<Longrightarrow> store_book symbol bk st = st"
  by (auto simp: store_book_def lookup_def map_of_update_same split: option.splits if_splits)

lemma update_order_book_fetch_error:
  assumes "(if CHR ''_'' \<in> set symbol then lookup (order_books_perp st) symbol
            else lookup (order_books st) symbol) = Inr bk"
    and "asks bk = []" and "bids bk = []" and "on_order_book loads urlopen symbol = Inl e"
  shows "update_order_book loads urlopen symbol updates st
           = (Some e, st\<lparr>requests := requests st @ [depth_request symbol]\<rparr>)"
  using assms(2-) store_book_same [OF assms(1)]
  by (simp add: update_order_book_def assms(1) initialize_book_def log_request_def)

text \<open>
  Claim C5, as the code has it. A response outside 2xx makes \<^verbatim>\<open>on_order_book\<close> raise the
  generic exception whose message is the printed raw body. On a 2xx response, whatever the
  decoder raises on the body leaves the function as it is, and a decoded object with no
  \<open>bids\<close> raises KeyError; a body that conforms to the schema gives an order book; and the
  function raises only when the response is outside 2xx, with that generic exception, or
  the body does not conform. Whatever it raises leaves \<^verbatim>\<open>update_order_book\<close> too, on a book
  that was empty: the request was made and the object is otherwise as before.
\<close>

theorem snapshot_fetch_failures:
  "(urlopen (depth_request symbol) = HTTPError body \<longrightarrow>
      on_order_book loads urlopen symbol = Inl (Exception (bytes_repr body))) \<and>
   (\<forall>e. urlopen (depth_request symbol) = Response body \<and> loads body = Inl e \<longrightarrow>
      on_order_book loads urlopen symbol = Inl e) \<and>
   (urlopen (depth_request symbol) = Response body \<and> loads body = Inr (JObj kvs) \<and>
    map_of kvs ''bids'' = None \<longrightarrow>
      on_order_book loads urlopen symbol = Inl (KeyError ''bids'')) \<and>
   (urlopen (depth_request symbol) = Response body \<and> well_formed_body loads body \<longrightarrow>
      (\<exists>ob. on_order_book loads urlopen symbol = Inr ob)) \<and>
   (\<forall>e. on_order_book loads urlopen symbol = Inl e \<longrightarrow>
      (\<exists>b. urlopen (depth_request symbol) = HTTPError b \<and> e = Exception (bytes_repr b)) \<or>
      (\<exists>b. urlopen (depth_request symbol) = Response b \<and> \<not> well_formed_body loads b)) \<and>
   (\<forall>e. (if CHR ''_'' \<in> set symbol then lookup (order_books_perp st) symbol
          else lookup (order_books st) symbol) = Inr bk \<and>
         asks bk = [] \<and> bids bk = [] \<and> on_order_book loads urlopen symbol = Inl e \<longrightarrow>
      update_order_book loads urlopen symbol updates st
        = (Some e, st\<lparr>requests := requests st @ [depth_request symbol]\<rparr>))"
proof (intro conjI allI impI)
  assume "urlopen (depth_request symbol) = HTTPError body"
  then show "on_order_book loads urlopen symbol = Inl (Exception (bytes_repr body))"
    by (simp add: on_order_book_def)
next
  fix e assume "urlopen (depth_request symbol) = Response body \<and> loads body = Inl e"
  then show "on_order_book loads urlopen symbol = Inl e"
    by (simp add: on_order_book_def)
next
  assume "urlopen (depth_request symbol) = Response body \<and> loads body = Inr (JObj kvs) \<and>
    map_of kvs ''bids'' = None"
  then show "on_order_book loads urlopen symbol = Inl (KeyError ''bids'')"
    by (simp add: on_order_book_def field_levels_def)
next
  assume "urlopen (depth_request symbol) = Response body \<and> well_formed_body loads body"
  then show "\<exists>ob. on_order_book loads urlopen symbol = Inr ob"
    using on_order_book_well_formed [of urlopen symbol body loads] by simp
next
  fix e assume "on_order_book loads urlopen symbol = Inl e"
  then show "(\<exists>b. urlopen (depth_request symbol) = HTTPError b \<and> e = Exception (bytes_repr b)) \<or>
      (\<exists>b. urlopen (depth_request symbol) = Response b \<and> \<not> well_formed_body loads b)"
    by (rule on_order_book_error)
next
  fix e
  assume "(if CHR ''_'' \<in> set symbol then lookup (order_books_perp st) symbol
          else lookup (order_books st) symbol) = Inr bk \<and>
         asks bk = [] \<and> bids bk = [] \<and> on_order_book loads urlopen symbol = Inl e"
  then show "update_order_book loads urlopen symbol updates st
        = (Some e, st\<lparr>requests := requests st @ [depth_request symbol]\<rparr>)"
    using update_order_book_fetch_error [of symbol st bk loads urlopen e updates] by simp
qed

text \<open>
  The theorem on the fake transport: an endpoint that answers 429, one that answers with
  HTML, one that answers with the exchange's error object, and the one of the scenario.
\<close>

theorem snapshot_fetch_failures_witness:
  "always (HTTPError ''Too many requests'') (depth_request ''BTCUSDT'')
     = HTTPError ''Too many requests'' \<and>
   on_order_book example_loads (always (HTTPError ''Too many requests'')) ''BTCUSDT''
     = Inl (Exception (bytes_repr ''Too many requests'')) \<and>
   always (Response ''<html>'') (depth_request ''BTCUSDT'') = Response ''<html>'' \<and>
   example_loads ''<html>'' = Inl (JSONDecodeError ''<html>'') \<and>
   on_order_book example_loads (always (Response ''<html>'')) ''BTCUSDT''
     = Inl (JSONDecodeError ''<html>'') \<and>
   always (Response ''error'') (depth_request ''ETHBTC'') = Response ''error'' \<and>
   example_loads ''error''
     = Inr (JObj [(''code'', JInt (- 1121)), (''msg'', JStr ''Invalid symbol.'')]) \<and>
   map_of [(''code'', JInt (- 1121)), (''msg'', JStr ''Invalid symbol.'')] ''bids'' = None \<and>
   on_order_book example_loads (always (Response ''error'')) ''ETHBTC''
     = Inl (KeyError ''bids'') \<and>
   example_urlopen (depth_request ''BTCUSDT'') = Response ''snapshot'' \<and>
   well_formed_body example_loads ''snapshot'' \<and>
   (\<exists>ob. on_order_book example_loads example_urlopen ''BTCUSDT'' = Inr ob) \<and>
   ((\<exists>b. always (Response ''<html>'') (depth_request ''BTCUSDT'') = HTTPError b \<and>
         JSONDecodeError ''<html>'' = Exception (bytes_repr b)) \<or>
    (\<exists>b. always (Response ''<html>'') (depth_request ''BTCUSDT'') = Response b \<and>
         \<not> well_formed_body example_loads b)) \<and>
   lookup (order_books (open_stream_order_book ''BTCUSDT'' init)) ''BTCUSDT'' = Inr empty_book \<and>
   asks empty_book = [] \<and> bids empty_book = [] \<and>
   update_order_book example_loads (always (HTTPError ''Too many requests'')) ''BTCUSDT''
       example_delta (open_stream_order_book ''BTCUSDT'' init)
     = (Some (Exception (bytes_repr ''Too many requests'')),
        (open_stream_order_book ''BTCUSDT'' init)
          \<lparr>requests := requests (open_stream_order_book ''BTCUSDT'' init)
                          @ [depth_request ''BTCUSDT'']\<rparr>)"
proof -
  let ?busy = "always (HTTPError ''Too many requests'')"
  let ?html = "always (Response ''<html>'')"
  let ?err = "always (Response ''error'')"
  let ?kvs = "[(''code'', JInt (- 1121)), (''msg'', JStr ''Invalid symbol.'')]"
  let ?st = "open_stream_order_book ''BTCUSDT'' init"
  have a1: "?busy (depth_request ''BTCUSDT'') = HTTPError ''Too many requests''"
    by (simp add: always_def)
  have c1: "on_order_book example_loads ?busy ''BTCUSDT''
     = Inl (Exception (bytes_repr ''Too many requests''))"
    by (rule snapshot_fetch_failures [where urlopen = ?busy and symbol = "''BTCUSDT''"
          and body = "''Too many requests''" and loads = example_loads,
          THEN conjunct1, rule_format, OF a1])
  have a2: "?html (depth_request ''BTCUSDT'') = Response ''<html>'' \<and>
      example_loads ''<html>'' = Inl (JSONDecodeError ''<html>'')"
    by (simp add: example_loads_def always_def)
  have c2: "on_order_book example_loads ?html ''BTCUSDT'' = Inl (JSONDecodeError ''<html>'')"
    by (rule snapshot_fetch_failures [where urlopen = ?html and symbol = "''BTCUSDT''"
          and body = "''<html>''" and loads = example_loads,
          THEN conjunct2, THEN conjunct1, rule_format, OF a2])
  have a3: "?err (depth_request ''ETHBTC'') = Response ''error'' \<and>
      example_loads ''error'' = Inr (JObj ?kvs) \<and> map_of ?kvs ''bids'' = None"
    by (simp add: example_loads_def always_def)
  have c3: "on_order_book example_loads ?err ''ETHBTC'' = Inl (KeyError ''bids'')"
    by (rule snapshot_fetch_failures [where urlopen = ?err and symbol = "''ETHBTC''"
          and body = "''error''" and loads = example_loads and kvs = ?kvs,
          THEN conjunct2, THEN conjunct2, THEN conjunct1, rule_format, OF a3])
  have a4: "example_urlopen (depth_request ''BTCUSDT'') = Response ''snapshot'' \<and>
      well_formed_body example_loads ''snapshot''"
    by (simp add: example_urlopen_def well_formed_body_def example_loads_def
          well_formed_row_def is_decimal_def Decimal_examples)
  have c4: "\<exists>ob. on_order_book example_loads example_urlopen ''BTCUSDT'' = Inr ob"
    by (rule snapshot_fetch_failures [where urlopen = example_urlopen
          and symbol = "''BTCUSDT''" and body = "''snapshot''" and loads = example_loads,
          THEN conjunct2, THEN conjunct2, THEN conjunct2, THEN conjunct1, rule_format, OF a4])
  have c5: "(\<exists>b. ?html (depth_request ''BTCUSDT'') = HTTPError b \<and>
         JSONDecodeError ''<html>'' = Exception (bytes_repr b)) \<or>
    (\<exists>b. ?html (depth_request ''BTCUSDT'') = Response b \<and>
         \<not> well_formed_body example_loads b)"
    by (rule snapshot_fetch_failures [where urlopen = ?html and symbol = "''BTCUSDT''"
          and loads = example_loads,
          THEN conjunct2, THEN conjunct2, THEN conjunct2, THEN conjunct2, THEN conjunct1,
          rule_format, OF c2])
  have e: "asks empty_book = []" "bids empty_book = []"
    by (simp_all add: empty_book_def)
  have a6: "(if CHR ''_'' \<in> set ''BTCUSDT''
             then lookup (order_books_perp ?st) ''BTCUSDT''
             else lookup (order_books ?st) ''BTCUSDT'') = Inr empty_book \<and>
      asks empty_book = [] \<and> bids empty_book = [] \<and>
      on_order_book example_loads ?busy ''BTCUSDT''
        = Inl (Exception (bytes_repr ''Too many requests''))"
    by (simp add: example_opened e c1)
  have c6: "update_order_book example_loads ?busy ''BTCUSDT'' example_delta ?st
     = (Some (Exception (bytes_repr ''Too many requests'')),
        ?st\<lparr>requests := requests ?st @ [depth_request ''BTCUSDT'']\<rparr>)"
    by (rule snapshot_fetch_failures [where urlopen = ?busy and symbol = "''BTCUSDT''"
          and loads = example_loads and st = ?st and bk = empty_book,
          THEN conjunct2, THEN conjunct2, THEN conjunct2, THEN conjunct2, THEN conjunct2,
          rule_format, OF a6])
  note a2a = a2 [THEN conjunct1] and a2b = a2 [THEN conjunct2]
    and a3a = a3 [THEN conjunct1] and a3b = a3 [THEN conjunct2, THEN conjunct1]
    and a3c = a3 [THEN conjunct2, THEN conjunct2]
    and a4a = a4 [THEN conjunct1] and a4b = a4 [THEN conjunct2]
  from a1 c1 a2a a2b c2 a3a a3b a3c c3 a4a a4b c4 c5 example_opened e c6 show ?thesis
    by (intro conjI)
qed

text \<open>
  Against the claim as stated, twice. A 2xx response whose body is the exchange's error
  object makes the fetch fail with KeyError, which carries the key and nothing of the body:
  not every failure is the exception that carries the body. And a 2xx response whose body
  is an object with the empty string for \<open>bids\<close> and the empty object for \<open>asks\<close>, which does
  not conform to the schema, does not fail at all: both loops run over nothing and the
  fetch returns an order book with no levels.
\<close>

theorem snapshot_fetch_malformed_counterexample:
  "on_order_book example_loads (always (Response ''error'')) ''BTCUSDT''
     = Inl (KeyError ''bids'') \<and>
   on_order_book example_loads (always (Response ''error'')) ''BTCUSDT''
     \<noteq> Inl (Exception (bytes_repr ''error'')) \<and>
   \<not> well_formed_body example_loads ''degenerate'' \<and>
   on_order_book example_loads (always (Response ''degenerate'')) ''BTCUSDT''
     = Inr (OrderBook [] [])"
  by (simp add: on_order_book_def example_loads_def field_levels_def always_def
        well_formed_body_def)

section \<open>A session that ends on an exception\<close>

lemma store_book_registry:
  "sockets (store_book symbol bk st) = sockets st" "tasks (store_book symbol bk st) = tasks st"
  by (simp_all add: store_book_def)

lemma log_request_registry:
  "sockets (log_request f symbol st) = sockets st" "tasks (log_request f symbol st) = tasks st"
  by (simp_all add: log_request_def)

lemma update_order_book_registry:
  "sockets (snd (update_order_book loads urlopen symbol updates st)) = sockets st \<and>
   tasks (snd (update_order_book loads urlopen symbol updates st)) = tasks st"
proof (cases "if CHR ''_'' \<in> set symbol then lookup (order_books_perp st) symbol
            else lookup (order_books st) symbol")
  case (Inl e)
  then show ?thesis by (simp add: update_order_book_def)
next
  case (Inr bk)
  obtain r1 f bk1 where i: "initialize_book loads urlopen symbol bk = (r1, f, bk1)"
    by (cases "initialize_book loads urlopen symbol bk") auto
  obtain r2 bk2 where a: "apply_updates bk1 updates = (r2, bk2)"
    by (cases "apply_updates bk1 updates") auto
  show ?thesis
    by (cases r1) (simp_all add: update_order_book_def Inr i a store_book_registry
        log_request_registry)
qed

lemma then_callback_registry:
  assumes "callback_keeps_registry cb"
  shows "sockets (snd (case p of (None, s2) \<Rightarrow> cb d s2 | (Some e, s2) \<Rightarrow> (Some e, s2)))
           = sockets (snd p) \<and>
         tasks (snd (case p of (None, s2) \<Rightarrow> cb d s2 | (Some e, s2) \<Rightarrow> (Some e, s2)))
           = tasks (snd p)"
proof -
  obtain r s2 where p: "p = (r, s2)" by (cases p) auto
  show ?thesis
    using assms by (cases r) (simp_all add: p callback_keeps_registry_def)
qed


lemma run_frame_registry:
  assumes "callback_keeps_registry cb"
  shows "sockets (snd (run_frame loads urlopen cb ident r st)) = sockets st \<and>
         tasks (snd (run_frame loads urlopen cb ident r st)) =
           (case r of
              Frame raw \<Rightarrow>
                (case loads raw of
                   Inl e \<Rightarrow> tasks st
                 | Inr data \<Rightarrow>
                     if ident \<in> fst ` set (tasks st) then AList.delete ident (tasks st)
                     else tasks st)
            | _ \<Rightarrow> tasks st)"
proof (cases r)
  case (Frame raw)
  show ?thesis
  proof (cases "loads raw")
    case (Inl e)
    then show ?thesis by (simp add: run_frame_def Frame)
  next
    case decoded: (Inr data)
    have c: "\<And>d s. sockets (snd (cb d s)) = sockets s" "\<And>d s. tasks (snd (cb d s)) = tasks s"
      using assms by (simp_all add: callback_keeps_registry_def)
    show ?thesis
      by (simp add: run_frame_def Frame decoded Let_def c then_callback_registry [OF assms]
            update_order_book_registry split: sum.splits jval.splits)
  qed
qed (simp_all add: run_frame_def)


lemma exec_event_sockets:
  assumes "callback_keeps_registry cb" and "ev \<noteq> Close"
  shows "sockets st \<subseteq> sockets (exec_event cb ev st)"
proof (cases ev)
  case (RunFrame loads urlopen ident r)
  then show ?thesis by (simp add: run_frame_registry [OF assms(1)])
next
  case (UpdateOrderBook loads urlopen symbol updates)
  then show ?thesis by (simp add: update_order_book_registry)
next
  case Close
  with assms(2) show ?thesis by simp
qed (auto simp: open_stream_order_book_def open_stream_order_book_perp_def run_begin_def
       run_connected_def run_loop_head_def)

lemma exec_events_sockets:
  assumes "callback_keeps_registry cb" and "Close \<notin> set evs"
  shows "sockets st \<subseteq> sockets (exec_events cb evs st)"
  using assms(2)
proof (induction evs arbitrary: st)
  case Nil
  then show ?case by (simp add: exec_events_def)
next
  case (Cons ev evs)
  then have ne: "ev \<noteq> Close" and rest: "Close \<notin> set evs" by auto
  have "sockets st \<subseteq> sockets (exec_event cb ev st)"
    by (rule exec_event_sockets [OF assms(1) ne])
  also have "\<dots> \<subseteq> sockets (exec_events cb evs (exec_event cb ev st))"
    by (rule Cons.IH [OF rest])
  finally show ?case by (simp add: exec_events_def)
qed

lemma example_connected_eq:
  "example_connected =
     \<lparr>order_books = [(''BTCUSDT'', empty_book)], order_books_perp = [],
      sockets = {''depth_btcusdt''}, tasks = [(''depth_btcusdt'', 0)], requests = [],
      connects = [''wss://stream.binance.com:9443/ws/btcusdt@depth''],
      scheduled = [(''wss://stream.binance.com:9443/ws/btcusdt@depth'', ''depth_btcusdt'')],
      cancelled = {}, next_task = 1\<rparr>"
proof -
  let ?url = "''wss://stream.binance.com:9443/ws/btcusdt@depth''"
  let ?s1 = "\<lparr>order_books = [(''BTCUSDT'', empty_book)], order_books_perp = [],
      sockets = {}, tasks = [], requests = [], connects = [],
      scheduled = [(?url, ''depth_btcusdt'')], cancelled = {}, next_task = 0\<rparr>"
  let ?s2 = "?s1\<lparr>connects := [?url]\<rparr>"
  let ?s3 = "?s2\<lparr>sockets := {''depth_btcusdt''}, tasks := [(''depth_btcusdt'', 0)],
      next_task := 1\<rparr>"
  have e1: "exec_event no_callback (OpenStream ''BTCUSDT'') init = ?s1"
    by (simp add: open_stream_order_book_def lower_btcusdt init_def)
  have e2: "exec_event no_callback (RunBegin ?url ''depth_btcusdt'') ?s1 = ?s2"
    by (simp add: run_begin_def)
  have e3: "exec_event no_callback (RunConnected ''depth_btcusdt'') ?s2 = ?s3"
    by (simp add: run_connected_def run_loop_head_def)
  have "example_connected = ?s3"
    by (simp only: example_connected_def exec_events_def foldl.simps e1 e2 e3)
  then show ?thesis by simp
qed

lemma no_callback_keeps_registry: "callback_keeps_registry no_callback"
  by (simp add: callback_keeps_registry_def no_callback_def)

text \<open>
  Claim C10, as the code has it. A session whose id is open and whose receive task is
  recorded gets a frame. If the frame does not decode, the decoder's exception leaves
  everything as it is: the id is still open and the task still recorded. If the frame decodes, the record of
  the task is deleted before anything else, so whatever raises afterwards (the book update
  or the callback) leaves the id open and no task recorded. Either way, as long as
  \<^verbatim>\<open>close\<close> is not called the id stays open through everything that happens next, and a
  \<^verbatim>\<open>run\<close> started with that id returns at once without connecting. The callback is one that
  leaves the bookkeeping alone.
\<close>

theorem failed_session_stays_registered:
  assumes "callback_keeps_registry cb" and "ident \<in> sockets st"
    and "map_of (tasks st) ident = Some t"
  shows
    "(\<forall>e. loads raw = Inl e \<longrightarrow>
        run_frame loads urlopen cb ident (Frame raw) st = (Some e, st)) \<and>
     (\<forall>data. loads raw = Inr data \<longrightarrow>
        ident \<in> sockets (snd (run_frame loads urlopen cb ident (Frame raw) st)) \<and>
        map_of (tasks (snd (run_frame loads urlopen cb ident (Frame raw) st))) ident = None) \<and>
     (\<forall>evs. Close \<notin> set evs \<longrightarrow>
        ident \<in> sockets (exec_events cb evs
                   (snd (run_frame loads urlopen cb ident (Frame raw) st))) \<and>
        run_begin url ident
            (exec_events cb evs (snd (run_frame loads urlopen cb ident (Frame raw) st)))
          = (False, exec_events cb evs (snd (run_frame loads urlopen cb ident (Frame raw) st))))"
proof (intro conjI allI impI)
  fix e assume "loads raw = Inl e"
  then show "run_frame loads urlopen cb ident (Frame raw) st = (Some e, st)"
    by (simp add: run_frame_def)
next
  fix data assume "loads raw = Inr data"
  then show "ident \<in> sockets (snd (run_frame loads urlopen cb ident (Frame raw) st))"
    using assms(2) by (simp add: run_frame_registry [OF assms(1)])
next
  fix data assume d: "loads raw = Inr data"
  have k: "ident \<in> fst ` set (tasks st)"
    using assms(3) by (metis domI dom_map_of_conv_image_fst)
  show "map_of (tasks (snd (run_frame loads urlopen cb ident (Frame raw) st))) ident = None"
    by (simp add: run_frame_registry [OF assms(1)] d k AList.delete_conv')
next
  fix evs assume nc: "Close \<notin> set evs"
  have "ident \<in> sockets (snd (run_frame loads urlopen cb ident (Frame raw) st))"
    using assms(2) by (simp add: run_frame_registry [OF assms(1)])
  with exec_events_sockets [OF assms(1) nc]
  show in_set: "ident \<in> sockets (exec_events cb evs
                   (snd (run_frame loads urlopen cb ident (Frame raw) st)))"
    by blast
  then show "run_begin url ident
            (exec_events cb evs (snd (run_frame loads urlopen cb ident (Frame raw) st)))
          = (False, exec_events cb evs (snd (run_frame loads urlopen cb ident (Frame raw) st)))"
    by (simp add: run_begin_def)
qed


text \<open>
  The theorem at the connected session of the fake transport: a frame of HTML, the frame
  \<open>delta\<close>, and a later attempt to open the stream again.
\<close>

theorem failed_session_stays_registered_witness:
  "callback_keeps_registry no_callback \<and>
   ''depth_btcusdt'' \<in> sockets example_connected \<and>
   map_of (tasks example_connected) ''depth_btcusdt'' = Some 0 \<and>
   example_loads ''<html>'' = Inl (JSONDecodeError ''<html>'') \<and>
   run_frame example_loads example_urlopen no_callback ''depth_btcusdt'' (Frame ''<html>'')
       example_connected
     = (Some (JSONDecodeError ''<html>''), example_connected) \<and>
   example_loads ''delta'' = Inr example_delta \<and>
   ''depth_btcusdt'' \<in> sockets (snd (run_frame example_loads example_urlopen no_callback
       ''depth_btcusdt'' (Frame ''delta'') example_connected)) \<and>
   map_of (tasks (snd (run_frame example_loads example_urlopen no_callback
       ''depth_btcusdt'' (Frame ''delta'') example_connected))) ''depth_btcusdt'' = None \<and>
   Close \<notin> set [OpenStream ''BTCUSDT''] \<and>
   ''depth_btcusdt'' \<in> sockets (exec_events no_callback [OpenStream ''BTCUSDT'']
       (snd (run_frame example_loads example_urlopen no_callback ''depth_btcusdt''
          (Frame ''<html>'') example_connected))) \<and>
   run_begin ''wss://stream.binance.com:9443/ws/btcusdt@depth'' ''depth_btcusdt''
       (exec_events no_callback [OpenStream ''BTCUSDT'']
          (snd (run_frame example_loads example_urlopen no_callback ''depth_btcusdt''
             (Frame ''<html>'') example_connected)))
     = (False, exec_events no_callback [OpenStream ''BTCUSDT'']
          (snd (run_frame example_loads example_urlopen no_callback ''depth_btcusdt''
             (Frame ''<html>'') example_connected)))"
proof -
  have h2: "''depth_btcusdt'' \<in> sockets example_connected"
    by (simp add: example_connected_eq)
  have h3: "map_of (tasks example_connected) ''depth_btcusdt'' = Some 0"
    by (simp add: example_connected_eq)
  note T = failed_session_stays_registered [OF no_callback_keeps_registry h2 h3]
  have a1: "example_loads ''<html>'' = Inl (JSONDecodeError ''<html>'')"
    by (simp add: example_loads_def)
  have c1: "run_frame example_loads example_urlopen no_callback ''depth_btcusdt''
       (Frame ''<html>'') example_connected
     = (Some (JSONDecodeError ''<html>''), example_connected)"
    by (rule T [where loads = example_loads and raw = "''<html>''",
          THEN conjunct1, rule_format, OF a1])
  have a2: "example_loads ''delta'' = Inr example_delta"
    by (simp add: example_loads_def)
  have c2: "''depth_btcusdt'' \<in> sockets (snd (run_frame example_loads example_urlopen
         no_callback ''depth_btcusdt'' (Frame ''delta'') example_connected)) \<and>
      map_of (tasks (snd (run_frame example_loads example_urlopen no_callback
         ''depth_btcusdt'' (Frame ''delta'') example_connected))) ''depth_btcusdt'' = None"
    by (rule T [where loads = example_loads and raw = "''delta''",
          THEN conjunct2, THEN conjunct1, rule_format, OF a2])
  have a3: "Close \<notin> set [OpenStream ''BTCUSDT'']"
    by simp
  have c3: "''depth_btcusdt'' \<in> sockets (exec_events no_callback [OpenStream ''BTCUSDT'']
         (snd (run_frame example_loads example_urlopen no_callback ''depth_btcusdt''
            (Frame ''<html>'') example_connected))) \<and>
      run_begin ''wss://stream.binance.com:9443/ws/btcusdt@depth'' ''depth_btcusdt''
         (exec_events no_callback [OpenStream ''BTCUSDT'']
            (snd (run_frame example_loads example_urlopen no_callback ''depth_btcusdt''
               (Frame ''<html>'') example_connected)))
       = (False, exec_events no_callback [OpenStream ''BTCUSDT'']
            (snd (run_frame example_loads example_urlopen no_callback ''depth_btcusdt''
               (Frame ''<html>'') example_connected)))"
    by (rule T [where loads = example_loads and raw = "''<html>''",
          THEN conjunct2, THEN conjunct2, rule_format, OF a3])
  from no_callback_keeps_registry h2 h3 a1 c1 a2 c2 [THEN conjunct1] c2 [THEN conjunct2] a3
    c3 [THEN conjunct1] c3 [THEN conjunct2]
  show ?thesis by (intro conjI)
qed

text \<open>
  Against the claim as stated: the frame \<open>delta\<close> decodes, the endpoint answers the
  snapshot request with 429, and the book update raises. The id is still open, but the
  receive task is no longer recorded; and once \<^verbatim>\<open>close\<close> has been called, a \<^verbatim>\<open>run\<close> with
  that id goes on to connect.
\<close>

theorem failed_update_drops_task_counterexample:
  "map_of (tasks example_connected) ''depth_btcusdt'' = Some 0 \<and>
   fst (run_frame example_loads (always (HTTPError ''Too many requests'')) no_callback
          ''depth_btcusdt'' (Frame ''delta'') example_connected)
     = Some (Exception (bytes_repr ''Too many requests'')) \<and>
   ''depth_btcusdt'' \<in> sockets (snd (run_frame example_loads
          (always (HTTPError ''Too many requests'')) no_callback
          ''depth_btcusdt'' (Frame ''delta'') example_connected)) \<and>
   map_of (tasks (snd (run_frame example_loads (always (HTTPError ''Too many requests''))
          no_callback ''depth_btcusdt'' (Frame ''delta'') example_connected)))
      ''depth_btcusdt'' = None \<and>
   fst (run_begin ''wss://stream.binance.com:9443/ws/btcusdt@depth'' ''depth_btcusdt''
          (close (snd (run_frame example_loads (always (HTTPError ''Too many requests''))
             no_callback ''depth_btcusdt'' (Frame ''delta'') example_connected)))) = True"
proof -
  let ?busy = "always (HTTPError ''Too many requests'')"
  let ?st1 = "example_connected\<lparr>tasks := []\<rparr>"
  have f: "on_order_book example_loads ?busy ''BTCUSDT''
      = Inl (Exception (bytes_repr ''Too many requests''))"
    by (simp add: on_order_book_def always_def)
  have u: "update_order_book example_loads ?busy ''BTCUSDT'' example_delta ?st1
      = (Some (Exception (bytes_repr ''Too many requests'')),
         ?st1\<lparr>requests := [depth_request ''BTCUSDT'']\<rparr>)"
    by (simp add: update_order_book_def example_connected_eq lookup_def initialize_book_def
          empty_book_def f store_book_def log_request_def)
  have s: "getitem example_delta ''s'' = Inr (JStr ''BTCUSDT'')"
    by (simp add: example_delta_def)
  have d: "AList.delete ''depth_btcusdt'' (tasks example_connected) = []"
    by (simp add: example_connected_eq AList.delete_eq)
  have k: "''depth_btcusdt'' \<in> fst ` set (tasks example_connected)"
    by (simp add: example_connected_eq)
  have r: "run_frame example_loads ?busy no_callback ''depth_btcusdt'' (Frame ''delta'')
        example_connected
      = (Some (Exception (bytes_repr ''Too many requests'')),
         ?st1\<lparr>requests := [depth_request ''BTCUSDT'']\<rparr>)"
    by (simp add: run_frame_def example_loads_def k d starts_with_def s u)
  show ?thesis
    unfolding r by (simp add: example_connected_eq close_def run_begin_def)
qed

section \<open>No level without quantity\<close>

lemma list_all_update:
  "list_all P al \<Longrightarrow> P (k, v) \<Longrightarrow> list_all P (AList.update k v al)"
  by (induction al) auto

lemma list_all_delete: "list_all P al \<Longrightarrow> list_all P (AList.delete k al)"
  by (induction al) auto

lemma update_level_positive:
  "positive_levels d \<Longrightarrow> positive_levels (update_level d p q)"
  by (simp add: positive_levels_def update_level_def list_all_update list_all_delete)

lemma apply_levels_positive:
  "positive_levels d \<Longrightarrow> positive_levels (snd (apply_levels d rows))"
proof (induction rows arbitrary: d)
  case Nil
  then show ?case by simp
next
  case (Cons row rows)
  then show ?case
    by (simp add: update_level_positive split: sum.splits)
qed

lemma apply_updates_positive:
  assumes "positive_book bk"
  shows "positive_book (snd (apply_updates bk updates))"
proof -
  have a: "\<And>rows. positive_levels (snd (apply_levels (asks bk) rows))"
    using assms by (simp add: apply_levels_positive positive_book_def)
  have b: "\<And>rows. positive_levels (snd (apply_levels (bids bk) rows))"
    using assms by (simp add: apply_levels_positive positive_book_def)
  have a': "\<And>rows r d. apply_levels (asks bk) rows = (r, d) \<Longrightarrow> positive_levels d"
    using a by (metis snd_conv)
  have b': "\<And>rows r d. apply_levels (bids bk) rows = (r, d) \<Longrightarrow> positive_levels d"
    using b by (metis snd_conv)
  show ?thesis
    using assms
    by (auto simp: apply_updates_def positive_book_def dest: a' b'
          split: sum.splits prod.splits option.splits)
qed

lemma set_levels_positive:
  "positive_levels d \<Longrightarrow> positive_levels ls \<Longrightarrow> positive_levels (set_levels d ls)"
  unfolding set_levels_def
  by (induction ls arbitrary: d) (auto simp: positive_levels_def list_all_update)

lemma initialize_book_positive:
  assumes "positive_book bk" and "snapshot_positive loads urlopen symbol"
  shows "positive_book (snd (snd (initialize_book loads urlopen symbol bk)))"
  using assms
  by (auto simp: initialize_book_def snapshot_positive_def positive_book_def
        set_levels_positive split: sum.splits)

lemma store_book_positive:
  "positive_books st \<Longrightarrow> positive_book bk \<Longrightarrow> positive_books (store_book symbol bk st)"
  by (simp add: positive_books_def store_book_def list_all_update)

lemma log_request_positive: "positive_books (log_request f symbol st) = positive_books st"
  by (simp add: positive_books_def log_request_def)

lemma lookup_positive:
  "list_all (\<lambda>kv. positive_book (snd kv)) al \<Longrightarrow> lookup al k = Inr bk \<Longrightarrow> positive_book bk"
  by (auto simp: lookup_def list_all_iff split: option.splits dest!: map_of_SomeD)


lemma update_order_book_positive:
  assumes "positive_books st" and "snapshot_positive loads urlopen symbol"
  shows "positive_books (snd (update_order_book loads urlopen symbol updates st))"
proof (cases "if CHR ''_'' \<in> set symbol then lookup (order_books_perp st) symbol
            else lookup (order_books st) symbol")
  case (Inl e)
  then show ?thesis using assms(1) by (simp add: update_order_book_def)
next
  case (Inr bk)
  have pb: "positive_book bk"
    using Inr assms(1) by (auto simp: positive_books_def dest: lookup_positive split: if_splits)
  obtain r1 f bk1 where i: "initialize_book loads urlopen symbol bk = (r1, f, bk1)"
    by (cases "initialize_book loads urlopen symbol bk") auto
  have p1: "positive_book bk1"
    using initialize_book_positive [OF pb assms(2)] by (simp add: i)
  obtain r2 bk2 where a: "apply_updates bk1 updates = (r2, bk2)"
    by (cases "apply_updates bk1 updates") auto
  have p2: "positive_book bk2"
    using apply_updates_positive [OF p1, of updates] by (simp add: a)
  show ?thesis
    by (cases r1)
       (simp_all add: update_order_book_def Inr i a log_request_positive
          store_book_positive [OF assms(1)] p1 p2)
qed

lemma then_callback_positive:
  assumes "callback_keeps_positive cb" and "positive_books (snd p)"
  shows "positive_books (snd (case p of (None, s2) \<Rightarrow> cb d s2 | (Some e, s2) \<Rightarrow> (Some e, s2)))"
proof -
  obtain r s2 where p: "p = (r, s2)" by (cases p) auto
  show ?thesis
    using assms by (cases r) (simp_all add: p callback_keeps_positive_def)
qed

lemma tasks_update_positive: "positive_books (st\<lparr>tasks := ts\<rparr>) = positive_books st"
  by (simp add: positive_books_def)

lemma run_frame_positive:
  assumes "callback_keeps_positive cb" and "positive_books st"
    and "\<forall>symbol. snapshot_positive loads urlopen symbol"
  shows "positive_books (snd (run_frame loads urlopen cb ident r st))"
proof (cases r)
  case (Frame raw)
  show ?thesis
  proof (cases "loads raw")
    case (Inl e)
    then show ?thesis using assms(2) by (simp add: run_frame_def Frame)
  next
    case decoded: (Inr data)
    have c: "\<And>d s. positive_books s \<Longrightarrow> positive_books (snd (cb d s))"
      using assms(1) by (simp add: callback_keeps_positive_def)
    have u: "\<And>symbol updates s. positive_books s \<Longrightarrow>
        positive_books (snd (update_order_book loads urlopen symbol updates s))"
      using assms(3) by (simp add: update_order_book_positive)
    show ?thesis
      using assms(2)
      by (simp add: run_frame_def Frame decoded Let_def c u tasks_update_positive
            then_callback_positive [OF assms(1)] split: sum.splits jval.splits)
  qed
qed (use assms(2) in \<open>simp_all add: run_frame_def\<close>)

lemma exec_event_positive:
  assumes "callback_keeps_positive cb" and "positive_books st"
    and "event_snapshots_positive ev"
  shows "positive_books (exec_event cb ev st)"
proof (cases ev)
  case (OpenStream symbol)
  then show ?thesis
    using assms(2)
    by (simp add: open_stream_order_book_def positive_books_def list_all_update
          positive_book_def positive_levels_def empty_book_def)
next
  case (OpenStreamPerp symbol)
  then show ?thesis
    using assms(2)
    by (simp add: open_stream_order_book_perp_def positive_books_def list_all_update
          positive_book_def positive_levels_def empty_book_def)
next
  case (RunBegin url ident)
  then show ?thesis using assms(2) by (simp add: run_begin_def positive_books_def)
next
  case (RunConnected ident)
  then show ?thesis
    using assms(2) by (simp add: run_connected_def run_loop_head_def positive_books_def)
next
  case (RunLoopHead ident)
  then show ?thesis using assms(2) by (simp add: run_loop_head_def positive_books_def)
next
  case (RunFrame loads urlopen ident r)
  then show ?thesis
    using assms(3) run_frame_positive [OF assms(1,2)] by simp
next
  case (UpdateOrderBook loads urlopen symbol updates)
  then show ?thesis
    using assms(3) update_order_book_positive [OF assms(2)] by simp
next
  case Close
  then show ?thesis using assms(2) by (simp add: close_def positive_books_def)
qed

lemma exec_events_positive:
  assumes "callback_keeps_positive cb"
  shows "positive_books st \<Longrightarrow> list_all event_snapshots_positive evs \<Longrightarrow>
           positive_books (exec_events cb evs st)"
proof (induction evs arbitrary: st)
  case Nil
  then show ?case by (simp add: exec_events_def)
next
  case (Cons ev evs)
  from Cons.prems have "positive_books (exec_event cb ev st)"
    by (simp add: exec_event_positive [OF assms])
  with Cons.IH [of "exec_event cb ev st"] Cons.prems show ?case
    by (simp add: exec_events_def)
qed

lemma positive_levels_lookup:
  "positive_levels d \<Longrightarrow> map_of d p = Some q \<Longrightarrow> 0 < q"
  by (auto simp: positive_levels_def list_all_iff dest!: map_of_SomeD)

text \<open>The sorting that the callback of main.py does keeps the invariant.\<close>

lemma call_order_book_spread_positive:
  "positive_book lob \<Longrightarrow> positive_book (snd (call_order_book_spread lob))"
  by (simp add: call_order_book_spread_def positive_book_def positive_levels_def list_all_iff
        Let_def split: sum.splits)

lemma no_callback_keeps_positive: "callback_keeps_positive no_callback"
  by (simp add: callback_keeps_positive_def no_callback_def)

lemma example_snapshot_positive: "snapshot_positive example_loads example_urlopen symbol"
  by (simp add: snapshot_positive_def on_order_book_def example_loads_def example_urlopen_def
        field_levels_def index_def Decimal_examples positive_levels_def)

text \<open>
  Claim C6. Start from the object as constructed and let anything happen to it, in any
  order: streams opened, sessions started, connected and fed frames, direct calls of
  \<^verbatim>\<open>update_order_book\<close>, \<^verbatim>\<open>close\<close>. If every snapshot the endpoint returns has positive
  quantities only, and the callback keeps the quantities in the books positive, then any
  level found in any book of the object, on either side, has a positive quantity.
\<close>

theorem no_nonpositive_level:
  assumes "callback_keeps_positive cb" and "list_all event_snapshots_positive evs"
    and "get_order_book (exec_events cb evs init) symbol = Inr bk \<or>
         get_order_book_perp (exec_events cb evs init) symbol = Inr bk"
    and "map_of (bids bk) p = Some q \<or> map_of (asks bk) p = Some q"
  shows "0 < q"
proof -
  have "positive_books init"
    by (simp add: positive_books_def init_def)
  from exec_events_positive [OF assms(1) this assms(2)]
  have "positive_books (exec_events cb evs init)" .
  with assms(3) have "positive_book bk"
    by (auto simp: positive_books_def get_order_book_def get_order_book_perp_def
          dest: lookup_positive)
  with assms(4) show ?thesis
    by (auto simp: positive_book_def dest: positive_levels_lookup)
qed


text \<open>
  The theorem at the session of the fake transport, where the book of BTCUSDT ends with
  the ask \<open>102: 1\<close>.
\<close>

theorem no_nonpositive_level_witness:
  "callback_keeps_positive no_callback \<and>
   list_all event_snapshots_positive
     [OpenStream ''BTCUSDT'',
      RunBegin ''wss://stream.binance.com:9443/ws/btcusdt@depth'' ''depth_btcusdt'',
      RunConnected ''depth_btcusdt'',
      RunFrame example_loads example_urlopen ''depth_btcusdt'' (Frame ''delta'')] \<and>
   get_order_book
     (exec_events no_callback
        [OpenStream ''BTCUSDT'',
         RunBegin ''wss://stream.binance.com:9443/ws/btcusdt@depth'' ''depth_btcusdt'',
         RunConnected ''depth_btcusdt'',
         RunFrame example_loads example_urlopen ''depth_btcusdt'' (Frame ''delta'')]
        init) ''BTCUSDT''
     = Inr \<lparr>bids = [(199 / 2, 4)], asks = [(102, 1)]\<rparr> \<and>
   map_of (asks \<lparr>bids = [(199 / 2, 4)], asks = [(102, 1)]\<rparr>) 102 = Some 1 \<and>
   (0 :: rat) < 1"
proof -
  let ?evs = "[OpenStream ''BTCUSDT'',
      RunBegin ''wss://stream.binance.com:9443/ws/btcusdt@depth'' ''depth_btcusdt'',
      RunConnected ''depth_btcusdt'',
      RunFrame example_loads example_urlopen ''depth_btcusdt'' (Frame ''delta'')]"
  have h2: "list_all event_snapshots_positive ?evs"
    by (auto intro: example_snapshot_positive)
  have g: "get_order_book (exec_events no_callback ?evs init) ''BTCUSDT''
      = Inr \<lparr>bids = [(199 / 2, 4)], asks = [(102, 1)]\<rparr>"
    unfolding example_session_def [symmetric]
    by (simp add: example_session_eq get_order_book_def lookup_def)
  have h3: "get_order_book (exec_events no_callback ?evs init) ''BTCUSDT''
        = Inr \<lparr>bids = [(199 / 2, 4)], asks = [(102, 1)]\<rparr> \<or>
      get_order_book_perp (exec_events no_callback ?evs init) ''BTCUSDT''
        = Inr \<lparr>bids = [(199 / 2, 4)], asks = [(102, 1)]\<rparr>"
    using g by simp
  have m: "map_of (asks \<lparr>bids = [(199 / 2, 4)], asks = [(102 :: rat, 1 :: rat)]\<rparr>) 102
      = Some 1"
    by simp
  have h4: "map_of (bids \<lparr>bids = [(199 / 2, 4)], asks = [(102 :: rat, 1 :: rat)]\<rparr>) 102
        = Some 1 \<or>
      map_of (asks \<lparr>bids = [(199 / 2, 4)], asks = [(102 :: rat, 1 :: rat)]\<rparr>) 102 = Some 1"
    using m by simp
  from no_callback_keeps_positive h2 g m
    no_nonpositive_level [OF no_callback_keeps_positive h2 h3 h4]
  show ?thesis by (intro conjI)
qed

end
